theory Spec2Isabelle
  imports Complex_Main "HOL-Library.AList"
begin

section \<open>Keras frontend: errors\<close>

text \<open>
  Every exception the frontend can raise is a value of \<open>error\<close>; a function that
  may raise returns \<open>error + 'a\<close> with \<open>Inl\<close> carrying the exception.
\<close>

datatype error =
    ValueError string
  | TypeError string
  | NotImplementedError string
  | AssertionError string
  | ImportError string
  | AttributeError string
  | IndexError
  | ZeroDivisionError
  | OverflowError
  | DuplicateSymbol string
  | UnknownSymbol string

section \<open>Padding calculator\<close>

text \<open>Sequencing of computations that may raise: the first exception ends the sequence.\<close>

definition bindS :: "error + 'a \<Rightarrow> ('a \<Rightarrow> error + 'b) \<Rightarrow> error + 'b" where
  "bindS r f = (case r of Inl e \<Rightarrow> Inl e | Inr x \<Rightarrow> f x)"

text \<open>
  \<^verbatim>\<open>
  def _get_pad_pair(input1d, kernel1d, stride1d):
      out1d = (input1d + stride1d - 1) // stride1d
      pad = np.maximum((out1d - 1) * stride1d + kernel1d - input1d, 0)
      pad_before = pad // 2
      pad_after = pad - pad_before
      return [pad_before, pad_after]
  \<close>
  The arguments are Python integers, which are unbounded, so they are \<open>int\<close>; \<open>//\<close> is
  floor division, which is \<open>div\<close> on \<open>int\<close>, and it raises ZeroDivisionError on a zero
  divisor. \<open>np.maximum\<close> converts its arguments to numpy's 64-bit integers. A value
  outside that range is not compared as an integer: numpy 2 raises OverflowError, and
  numpy 1 computes in float64 and rounds when the value lies between \<open>2^63\<close> and \<open>2^64\<close>.
  The model raises OverflowError outside the range. The results are numpy 64-bit
  integers between 0 and the maximum, so the halving and the subtraction are exact.
\<close>

definition fits_int64 :: "int \<Rightarrow> bool" where
  "fits_int64 v = (- (2 ^ 63) \<le> v \<and> v < 2 ^ 63)"

definition np_maximum :: "int \<Rightarrow> int \<Rightarrow> error + int" where
  "np_maximum a b =
     (if fits_int64 a \<and> fits_int64 b then Inr (max a b) else Inl OverflowError)"

definition get_pad_pair :: "int \<Rightarrow> int \<Rightarrow> int \<Rightarrow> error + (int \<times> int)" where
  "get_pad_pair input1d kernel1d stride1d =
     (if stride1d = 0 then Inl ZeroDivisionError
      else
        let out1d = (input1d + stride1d - 1) div stride1d
        in bindS (np_maximum ((out1d - 1) * stride1d + kernel1d - input1d) 0) (\<lambda>pad.
           let pad_before = pad div 2;
               pad_after = pad - pad_before
           in Inr (pad_before, pad_after)))"

section \<open>Arrays, IR expressions and operators\<close>

text \<open>
  Weight arrays are numpy arrays. The frontend never reads their elements: it reads
  shapes, transposes, allocates zero buffers and finally converts every registered
  array to 32-bit floats. The model keeps the array a layer holds as its shape and its
  row-major data (floats written as reals) and keeps the numpy operations applied to it
  symbolically.
\<close>

datatype ndarray =
    Weights "nat list" "real list"
  | Transposed ndarray "nat list"
  | Zeros "nat list" string
  | AsFloat32 ndarray

fun shape :: "ndarray \<Rightarrow> nat list" where
  "shape (Weights s _) = s"
| "shape (Transposed a axes) = map (\<lambda>i. if i < length (shape a) then shape a ! i else 0) axes"
| "shape (Zeros s _) = s"
| "shape (AsFloat32 a) = shape a"

text \<open>\<open>a.transpose(axes)\<close>: numpy raises ValueError unless \<open>axes\<close> permutes the axes of \<open>a\<close>.\<close>

definition np_transpose :: "ndarray \<Rightarrow> nat list \<Rightarrow> error + ndarray" where
  "np_transpose a axes =
     (if sort axes = [0 ..< length (shape a)] then Inr (Transposed a axes)
      else Inl (ValueError ''axes don't match array''))"

text \<open>\<open>np.roll(range(size), 1)\<close>: the last index moves to the front.\<close>

definition np_roll1 :: "nat list \<Rightarrow> nat list" where
  "np_roll1 xs = (if xs = [] then [] else last xs # butlast xs)"

text \<open>Indexing a Python list: \<open>xs[i]\<close> raises IndexError out of range.\<close>

definition py_index :: "'a list \<Rightarrow> nat \<Rightarrow> error + 'a" where
  "py_index xs i = (if i < length xs then Inr (xs ! i) else Inl IndexError)"

text \<open>
  The destination IR. An operator call carries its tensor arguments and its keyword
  attributes; \<open>_expr.var\<close>, \<open>_expr.const\<close>, tuples and tuple projections are the other
  expression forms the frontend builds.
\<close>

datatype attr =
    AInt int
  | AReal real
  | ABool bool
  | AStr string
  | AInts "int list"
  | APairs "(int \<times> int) list"

datatype opname =
    Negative | Relu | Exp | Log | Add | Subtract | Multiply | Divide | Maximum
  | Softmax | Sigmoid | Tanh | Clip | Abs | LeakyRelu | Greater | Cast
  | Squeeze | Dense | BiasAdd | ExpandDims | Pad | Conv2d | Conv2dTranspose
  | Transpose | BatchFlatten | GlobalMaxPool2d | GlobalAvgPool2d | MaxPool2d
  | AvgPool2d | Upsampling | StridedSlice | BatchNorm | Concatenate | Reshape | Split

datatype expr =
    Var string "nat list option" string
  | Const real "string option"
  | Call opname "expr list" "(string \<times> attr) list"
  | Tuple "expr list"
  | TupleGetItem expr nat

text \<open>
  The operator constructors of \<open>_op\<close> and \<open>_expr\<close> that the modelled rules use. The
  Python operators \<open>+\<close>, \<open>-\<close>, \<open>*\<close> and \<open>/\<close> on expressions build \<open>add\<close>, \<open>subtract\<close>,
  \<open>multiply\<close> and \<open>divide\<close> calls.
\<close>

abbreviation op_negative :: "expr \<Rightarrow> expr" where
  "op_negative x \<equiv> Call Negative [x] []"

abbreviation op_relu :: "expr \<Rightarrow> expr" where
  "op_relu x \<equiv> Call Relu [x] []"

abbreviation op_exp :: "expr \<Rightarrow> expr" where
  "op_exp x \<equiv> Call Exp [x] []"

abbreviation op_log :: "expr \<Rightarrow> expr" where
  "op_log x \<equiv> Call Log [x] []"

abbreviation op_abs :: "expr \<Rightarrow> expr" where
  "op_abs x \<equiv> Call Abs [x] []"

abbreviation op_sigmoid :: "expr \<Rightarrow> expr" where
  "op_sigmoid x \<equiv> Call Sigmoid [x] []"

abbreviation op_tanh :: "expr \<Rightarrow> expr" where
  "op_tanh x \<equiv> Call Tanh [x] []"

abbreviation op_add :: "expr \<Rightarrow> expr \<Rightarrow> expr" where
  "op_add a b \<equiv> Call Add [a, b] []"

abbreviation op_subtract :: "expr \<Rightarrow> expr \<Rightarrow> expr" where
  "op_subtract a b \<equiv> Call Subtract [a, b] []"

abbreviation op_multiply :: "expr \<Rightarrow> expr \<Rightarrow> expr" where
  "op_multiply a b \<equiv> Call Multiply [a, b] []"

abbreviation op_divide :: "expr \<Rightarrow> expr \<Rightarrow> expr" where
  "op_divide a b \<equiv> Call Divide [a, b] []"

abbreviation op_greater :: "expr \<Rightarrow> expr \<Rightarrow> expr" where
  "op_greater a b \<equiv> Call Greater [a, b] []"

abbreviation op_softmax :: "expr \<Rightarrow> int \<Rightarrow> expr" where
  "op_softmax x axis \<equiv> Call Softmax [x] [(''axis'', AInt axis)]"

abbreviation op_clip :: "expr \<Rightarrow> real \<Rightarrow> real \<Rightarrow> expr" where
  "op_clip x a_min a_max \<equiv> Call Clip [x] [(''a_min'', AReal a_min), (''a_max'', AReal a_max)]"

abbreviation op_leaky_relu :: "expr \<Rightarrow> real \<Rightarrow> expr" where
  "op_leaky_relu x alpha \<equiv> Call LeakyRelu [x] [(''alpha'', AReal alpha)]"

abbreviation op_astype :: "expr \<Rightarrow> string \<Rightarrow> expr" where
  "op_astype x dtype \<equiv> Call Cast [x] [(''dtype'', AStr dtype)]"

abbreviation op_squeeze :: "expr \<Rightarrow> int list \<Rightarrow> expr" where
  "op_squeeze x axis \<equiv> Call Squeeze [x] [(''axis'', AInts axis)]"

abbreviation op_dense :: "expr \<Rightarrow> expr \<Rightarrow> int \<Rightarrow> expr" where
  "op_dense data weight units \<equiv> Call Dense [data, weight] [(''units'', AInt units)]"

abbreviation op_bias_add :: "expr \<Rightarrow> expr \<Rightarrow> expr" where
  "op_bias_add data bias \<equiv> Call BiasAdd [data, bias] []"

abbreviation op_batch_flatten :: "expr \<Rightarrow> expr" where
  "op_batch_flatten x \<equiv> Call BatchFlatten [x] []"

abbreviation op_reshape :: "expr \<Rightarrow> int list \<Rightarrow> expr" where
  "op_reshape x newshape \<equiv> Call Reshape [x] [(''newshape'', AInts newshape)]"

abbreviation op_pad :: "expr \<Rightarrow> (int \<times> int) list \<Rightarrow> expr" where
  "op_pad data pad_width \<equiv> Call Pad [data] [(''pad_width'', APairs pad_width)]"

abbreviation const :: "real \<Rightarrow> expr" where
  "const v \<equiv> Const v None"

abbreviation const_f32 :: "real \<Rightarrow> expr" where
  "const_f32 v \<equiv> Const v (Some ''float32'')"

text \<open>
  \<open>_op.split\<close> returns a tuple wrapper: the split call and the number of its parts (the
  section count, or one more than the number of split indices). Indexing the wrapper
  builds a tuple projection and raises IndexError past its size; iterating over it
  yields the projections \<open>0 .. size - 1\<close> in order.
\<close>

datatype tuple_wrapper = TupleWrapper expr nat

definition op_split_sections :: "expr \<Rightarrow> nat \<Rightarrow> int \<Rightarrow> tuple_wrapper" where
  "op_split_sections data sections axis =
     TupleWrapper (Call Split [data] [(''indices_or_sections'', AInt (int sections)),
                                      (''axis'', AInt axis)]) sections"

definition op_split_indices :: "expr \<Rightarrow> int list \<Rightarrow> int \<Rightarrow> tuple_wrapper" where
  "op_split_indices data indices axis =
     TupleWrapper (Call Split [data] [(''indices_or_sections'', AInts indices),
                                      (''axis'', AInt axis)]) (length indices + 1)"

fun tuple_value :: "tuple_wrapper \<Rightarrow> expr" where
  "tuple_value (TupleWrapper e n) = e"

fun tuple_size :: "tuple_wrapper \<Rightarrow> nat" where
  "tuple_size (TupleWrapper e n) = n"

definition tw_item :: "tuple_wrapper \<Rightarrow> nat \<Rightarrow> error + expr" where
  "tw_item tw i =
     (if i < tuple_size tw then Inr (TupleGetItem (tuple_value tw) i) else Inl IndexError)"

definition tw_items :: "tuple_wrapper \<Rightarrow> expr list" where
  "tw_items tw = map (TupleGetItem (tuple_value tw)) [0 ..< tuple_size tw]"

section \<open>Symbol table\<close>

text \<open>Decimal rendering of a non-negative Python integer, \<open>str(n)\<close>.\<close>

definition digit_char :: "nat \<Rightarrow> char" where
  "digit_char d = ''0123456789'' ! d"

fun str_nat :: "nat \<Rightarrow> string" where
  "str_nat n = (if n < 10 then [digit_char n] else str_nat (n div 10) @ [digit_char (n mod 10)])"

text \<open>
  Modelled from the spec: the expression table \<open>ExprTable\<close> of the frontend's common
  module, which is not among the sources. The spec gives it a mapping from names to IR
  values, a parallel mapping from constant names to raw arrays, and three operations:
  \<open>set(name, value)\<close> fails with DuplicateSymbol if \<open>name\<close> is already present;
  \<open>get(name)\<close> fails with UnknownSymbol if it is absent; \<open>new_const(array)\<close> generates a
  fresh unique name, stores the array in the constant registry and returns an IR
  reference. Both mappings keep insertion order. The fresh name is the first of
  \<open>_param_1\<close>, \<open>_param_2\<close>, ... that is in neither mapping.
\<close>

record exprtable =
  exprs :: "(string \<times> expr) list"
  params :: "(string \<times> ndarray) list"

definition new_table :: exprtable where
  "new_table = \<lparr>exprs = [], params = []\<rparr>"

definition names_of :: "exprtable \<Rightarrow> string list" where
  "names_of t = map fst (exprs t) @ map fst (params t)"

definition param_name :: "nat \<Rightarrow> string" where
  "param_name k = ''_param_'' @ str_nat k"

definition fresh_name :: "string list \<Rightarrow> string" where
  "fresh_name used =
     (case find (\<lambda>k. param_name k \<notin> set used) [1 ..< length used + 2] of
        Some k \<Rightarrow> param_name k
      | None \<Rightarrow> param_name (length used + 2))"

text \<open>
  Operations on the table run in a state-and-exception monad: an operation takes the
  table and returns the value or the exception together with the table as it then is
  (what was written before an exception stays written).
\<close>

type_synonym 'a conv = "exprtable \<Rightarrow> (error + 'a) \<times> exprtable"

definition ret :: "'a \<Rightarrow> 'a conv" where
  "ret x = (\<lambda>t. (Inr x, t))"

definition raise :: "error \<Rightarrow> 'a conv" where
  "raise e = (\<lambda>t. (Inl e, t))"

definition lift :: "error + 'a \<Rightarrow> 'a conv" where
  "lift r = (\<lambda>t. (r, t))"

definition bindE :: "'a conv \<Rightarrow> ('a \<Rightarrow> 'b conv) \<Rightarrow> 'b conv" where
  "bindE m f = (\<lambda>t. case m t of (Inl e, t') \<Rightarrow> (Inl e, t') | (Inr x, t') \<Rightarrow> f x t')"

definition set_expr :: "string \<Rightarrow> expr \<Rightarrow> unit conv" where
  "set_expr name v t =
     (if name \<in> set (map fst (exprs t)) then (Inl (DuplicateSymbol name), t)
      else (Inr (), t\<lparr>exprs := exprs t @ [(name, v)]\<rparr>))"

definition get_expr :: "string \<Rightarrow> expr conv" where
  "get_expr name t =
     (case map_of (exprs t) name of
        None \<Rightarrow> (Inl (UnknownSymbol name), t)
      | Some v \<Rightarrow> (Inr v, t))"

definition new_const :: "ndarray \<Rightarrow> expr conv" where
  "new_const a t =
     (let name = fresh_name (names_of t)
      in (Inr (Var name (Some (shape a)) ''float32''),
          t\<lparr>params := params t @ [(name, a)]\<rparr>))"

text \<open>What \<open>new_const a\<close> returns on the table \<open>t\<close>, and the table it leaves.\<close>

definition const_ref :: "exprtable \<Rightarrow> ndarray \<Rightarrow> expr" where
  "const_ref t a = Var (fresh_name (names_of t)) (Some (shape a)) ''float32''"

definition with_const :: "exprtable \<Rightarrow> ndarray \<Rightarrow> exprtable" where
  "with_const t a = t\<lparr>params := params t @ [(fresh_name (names_of t), a)]\<rparr>"

section \<open>Layer descriptors\<close>

text \<open>
  A Keras layer object, as far as the frontend reads it. \<open>kind\<close> is
  \<open>type(keras_layer).__name__\<close>; \<open>activation\<close> and \<open>recurrent_activation\<close> are the
  \<open>__name__\<close> of the attached functions (\<open>func_name\<close> under Python 2 is the same string).
  An attribute probed with \<open>hasattr\<close> is an option, \<open>None\<close> when the object lacks it.
  \<open>alpha\<close> is the scalar coefficient of an activation, LeakyReLU or ELU layer; the
  \<open>alpha\<close> of a PReLU layer is a learned array of which only the shape is read, kept as
  \<open>alpha_shape\<close>. \<open>max_value\<close> is a number or Python's \<open>None\<close>. A dimension of a declared
  shape is a number or \<open>None\<close>; \<open>input_shape\<close> and \<open>output_shape\<close> are one shape or, for a
  layer with several inputs or outputs, a list of shapes.
\<close>

datatype shape_attr = Shape "nat option list" | Shapes "nat option list list"

datatype rate_attr = Rate int | Rates "int list"

record inbound_node =
  node_indices :: "nat list"
  tensor_indices :: "nat list"
  inbound_layers :: "(string \<times> bool) list"

record layer =
  kind :: string
  name :: string
  is_input_layer :: bool
  data_format :: "string option"
  activation :: string
  recurrent_activation :: string
  alpha :: "real option"
  beta :: "real option"
  gamma :: "real option"
  theta :: "real option"
  alpha_shape :: "nat list option"
  max_value :: "real option"
  get_weights :: "ndarray list"
  use_bias :: bool
  dilation_rate :: rate_attr
  strides :: "int \<times> int"
  padding :: string
  input_shape :: shape_attr
  output_shape :: shape_attr
  units :: nat
  inbound_nodes :: "inbound_node list option"

text \<open>A layer object with every attribute at a neutral value, to build examples from.\<close>

definition blank_layer :: layer where
  "blank_layer =
     \<lparr>kind = [], name = [], is_input_layer = False, data_format = None,
      activation = ''linear'', recurrent_activation = ''linear'',
      alpha = None, beta = None, gamma = None, theta = None, alpha_shape = None,
      max_value = None, get_weights = [], use_bias = False, dilation_rate = Rate 1,
      strides = (1, 1), padding = ''valid'', input_shape = Shape [], output_shape = Shape [],
      units = 0, inbound_nodes = None\<rparr>"

definition check_data_format :: "layer \<Rightarrow> error + unit" where
  "check_data_format keras_layer =
     (case data_format keras_layer of
        None \<Rightarrow> Inr ()
      | Some f \<Rightarrow>
          if f \<noteq> ''channels_last''
          then Inl (ValueError ''Keras frontend currently supports data_format = channels_last only.'')
          else Inr ())"

section \<open>Activation lowering\<close>

definition get_elu :: "expr \<Rightarrow> expr \<Rightarrow> expr" where
  "get_elu inexpr alpha' =
     op_add (op_multiply (op_negative alpha') (op_relu (op_subtract (const 1) (op_exp inexpr))))
            (op_relu inexpr)"

text \<open>
  The second argument of \<open>_convert_activation\<close> is an activation name (a Python string)
  or a layer object; a string has none of the attributes \<open>alpha\<close>, \<open>beta\<close>, \<open>gamma\<close>.
\<close>

datatype act_arg = ActName string | ActLayer layer

fun act_type_of :: "act_arg \<Rightarrow> string" where
  "act_type_of (ActName s) = s"
| "act_type_of (ActLayer l) = activation l"

fun attr_alpha :: "act_arg \<Rightarrow> real option" where
  "attr_alpha (ActName s) = None"
| "attr_alpha (ActLayer l) = alpha l"

fun attr_beta :: "act_arg \<Rightarrow> real option" where
  "attr_beta (ActName s) = None"
| "attr_beta (ActLayer l) = beta l"

fun attr_gamma :: "act_arg \<Rightarrow> real option" where
  "attr_gamma (ActName s) = None"
| "attr_gamma (ActLayer l) = gamma l"

fun is_str :: "act_arg \<Rightarrow> bool" where
  "is_str (ActName s) = True"
| "is_str (ActLayer l) = False"

definition selu_alpha :: real where
  "selu_alpha = 1.6732632423543772848170429916717"

definition selu_gamma :: real where
  "selu_gamma = 1.0507009873554804934193349852946"

definition convert_activation :: "expr \<Rightarrow> act_arg \<Rightarrow> error + expr" where
  "convert_activation inexpr keras_layer =
     (let act_type = act_type_of keras_layer in
      if act_type = ''linear'' then
        (if is_str keras_layer then Inr inexpr
         else
           let alpha = (case attr_alpha keras_layer of Some a \<Rightarrow> a | None \<Rightarrow> 1);
               beta = (case attr_beta keras_layer of Some b \<Rightarrow> b | None \<Rightarrow> 0)
           in Inr (op_add (op_multiply inexpr (const_f32 alpha)) (const_f32 beta)))
      else if act_type = ''softmax'' then Inr (op_softmax inexpr 1)
      else if act_type = ''sigmoid'' then Inr (op_sigmoid inexpr)
      else if act_type = ''tanh'' then Inr (op_tanh inexpr)
      else if act_type = ''relu'' then Inr (op_relu inexpr)
      else if act_type = ''softplus'' then Inr (op_log (op_add (op_exp inexpr) (const 1)))
      else if act_type = ''elu'' then
        (let alpha = (case attr_alpha keras_layer of Some a \<Rightarrow> a | None \<Rightarrow> 1)
         in Inr (get_elu inexpr (const_f32 alpha)))
      else if act_type = ''selu'' then
        (let alpha = (case attr_alpha keras_layer of Some a \<Rightarrow> a | None \<Rightarrow> selu_alpha);
             gamma = (case attr_gamma keras_layer of Some g \<Rightarrow> g | None \<Rightarrow> selu_gamma)
         in Inr (op_multiply (const_f32 gamma) (get_elu inexpr (const_f32 alpha))))
      else if act_type = ''relu6'' then Inr (op_clip inexpr 0 6)
      else if act_type = ''softsign'' then
        Inr (op_divide inexpr (op_add (const 1) (op_abs inexpr)))
      else if act_type = ''hard_sigmoid'' then
        (let transformX = op_add (op_multiply (const 0.2) inexpr) (const 0.5)
         in Inr (op_clip transformX 0 1))
      else Inl (TypeError (''Unsupported activation type : '' @ act_type)))"

definition convert_recurrent_activation :: "expr \<Rightarrow> layer \<Rightarrow> error + expr" where
  "convert_recurrent_activation inexpr keras_layer =
     convert_activation inexpr (ActName (recurrent_activation keras_layer))"

text \<open>
  \<open>if keras_layer.max_value:\<close> is Python truthiness: \<open>None\<close> and zero are false, every
  other number is true.
\<close>

definition truthy :: "real option \<Rightarrow> bool" where
  "truthy v = (case v of None \<Rightarrow> False | Some r \<Rightarrow> r \<noteq> 0)"

definition convert_advanced_activation :: "expr \<Rightarrow> layer \<Rightarrow> expr conv" where
  "convert_advanced_activation inexpr keras_layer =
     (let act_type = kind keras_layer in
      if act_type = ''ReLU'' then
        (case max_value keras_layer of
           Some m \<Rightarrow> if truthy (Some m) then ret (op_clip inexpr 0 m) else ret (op_relu inexpr)
         | None \<Rightarrow> ret (op_relu inexpr))
      else if act_type = ''LeakyReLU'' then
        (case alpha keras_layer of
           Some a \<Rightarrow> ret (op_leaky_relu inexpr a)
         | None \<Rightarrow> raise (AttributeError ''alpha''))
      else if act_type = ''ELU'' then
        (let alpha = (case alpha keras_layer of Some a \<Rightarrow> a | None \<Rightarrow> 1)
         in ret (get_elu inexpr (const_f32 alpha)))
      else if act_type = ''PReLU'' then
        (case alpha_shape keras_layer of
           None \<Rightarrow> raise (AssertionError ''alpha required for PReLU.'')
         | Some ashape \<Rightarrow>
             bindE (lift (check_data_format keras_layer)) (\<lambda>_.
             let size = length ashape in
             bindE (lift (py_index (get_weights keras_layer) 0)) (\<lambda>w.
             bindE (lift (np_transpose w (np_roll1 [0 ..< size]))) (\<lambda>wt.
             bindE (new_const wt) (\<lambda>alpha.
             ret (op_add (op_multiply (op_negative alpha) (op_relu (op_negative inexpr)))
                         (op_relu inexpr)))))))
      else if act_type = ''ThresholdedReLU'' then
        (let theta = (case theta keras_layer of Some th \<Rightarrow> th | None \<Rightarrow> 1)
         in ret (op_multiply inexpr (op_astype (op_greater inexpr (const_f32 theta)) ''float32'')))
      else raise (TypeError (''Unsupported advanced activation type : '' @ act_type)))"

section \<open>Convolution lowering\<close>

text \<open>
  A lowering rule receives one expression or a Python list of expressions, and returns
  one or a list.
\<close>

datatype exprs_arg = Single expr | Many "expr list"

text \<open>\<open>a, b, c, d = arr.shape\<close> raises ValueError unless the shape has four entries.\<close>

definition unpack4 :: "nat list \<Rightarrow> error + (nat \<times> nat \<times> nat \<times> nat)" where
  "unpack4 s =
     (case s of
        [a, b, c, d] \<Rightarrow> Inr (a, b, c, d)
      | _ \<Rightarrow> Inl (ValueError ''wrong number of values to unpack''))"

text \<open>
  \<open>keras_layer.input_shape[1]\<close> and \<open>[2]\<close>, then the two calls of \<open>_get_pad_pair\<close>, the one
  for the height first. Both entries are read before either call (IndexError when the
  shape is too short). An entry that is \<open>None\<close>, or a whole shape when \<open>input_shape\<close> is a
  list of shapes, makes the first addition of \<open>_get_pad_pair\<close> raise TypeError.
\<close>

definition pad_pair_of_dim :: "nat option \<Rightarrow> int \<Rightarrow> int \<Rightarrow> error + (int \<times> int)" where
  "pad_pair_of_dim d kernel1d stride1d =
     (case d of
        None \<Rightarrow> Inl (TypeError ''unsupported operand type(s) for +'')
      | Some n \<Rightarrow> get_pad_pair (int n) kernel1d stride1d)"

definition same_pads ::
  "shape_attr \<Rightarrow> int \<Rightarrow> int \<Rightarrow> int \<Rightarrow> int \<Rightarrow> error + ((int \<times> int) \<times> (int \<times> int))" where
  "same_pads ishape kernel_h kernel_w stride_h stride_w =
     (case ishape of
        Shapes ss \<Rightarrow>
          if length ss < 3 then Inl IndexError
          else Inl (TypeError ''unsupported operand type(s) for +'')
      | Shape dims \<Rightarrow>
          if length dims < 3 then Inl IndexError
          else
            (let in_h = dims ! 1; in_w = dims ! 2 in
             bindS (pad_pair_of_dim in_h kernel_h stride_h) (\<lambda>(pad_t, pad_b).
             bindS (pad_pair_of_dim in_w kernel_w stride_w) (\<lambda>(pad_l, pad_r).
             Inr ((pad_t, pad_b), (pad_l, pad_r))))))"

definition dilation_of :: "rate_attr \<Rightarrow> error + (int \<times> int)" where
  "dilation_of r =
     (case r of
        Rates ds \<Rightarrow> if length ds < 2 then Inl IndexError else Inr (ds ! 0, ds ! 1)
      | Rate d \<Rightarrow> Inr (d, d))"

text \<open>
  The fused activation of a layer: \<open>_convert_activation(out, act_type, etab)\<close> with the
  activation's name, unless that name is \<open>linear\<close>.
\<close>

definition defuse_activation :: "expr \<Rightarrow> layer \<Rightarrow> error + expr" where
  "defuse_activation out keras_layer =
     (let act_type = activation keras_layer
      in if act_type \<noteq> ''linear'' then convert_activation out (ActName act_type) else Inr out)"

text \<open>
  The end of \<open>_convert_convolution\<close>: the bias, when the layer uses one, and the fused
  activation.
\<close>

definition conv_finish :: "layer \<Rightarrow> expr \<Rightarrow> expr conv" where
  "conv_finish keras_layer out =
     bindE (if use_bias keras_layer
            then bindE (lift (py_index (get_weights keras_layer) 1)) (\<lambda>w1.
                 bindE (new_const w1) (\<lambda>bias. ret (op_bias_add out bias)))
            else ret out) (\<lambda>out.
     lift (defuse_activation out keras_layer))"

definition convert_convolution :: "expr \<Rightarrow> layer \<Rightarrow> expr conv" where
  "convert_convolution inexpr keras_layer =
     bindE (lift (check_data_format keras_layer)) (\<lambda>_.
     let is_deconv = (kind keras_layer = ''Conv2DTranspose'');
         is_depthconv = (kind keras_layer = ''DepthwiseConv2D'');
         weightList = get_weights keras_layer
     in
     bindE (lift (py_index weightList 0)) (\<lambda>w0.
     bindE (lift (unpack4 (shape w0))) (\<lambda>(kernel_h, kernel_w, d2, d3).
     bindE (lift (np_transpose w0 (if is_deconv then [3, 2, 0, 1]
                                   else if is_depthconv then [2, 3, 0, 1]
                                   else [3, 2, 0, 1]))) (\<lambda>weight.
     bindE (lift (dilation_of (dilation_rate keras_layer))) (\<lambda>(dilation_h, dilation_w).
     let dilated_kernel_h = (int kernel_h - 1) * dilation_h + 1;
         dilated_kernel_w = (int kernel_w - 1) * dilation_w + 1;
         (stride_h, stride_w) = strides keras_layer
     in
     bindE (new_const weight) (\<lambda>weight_ref.
     let params0 = [(''kernel_size'', AInts [int kernel_h, int kernel_w]),
                    (''strides'', AInts [stride_h, stride_w]),
                    (''dilation'', AInts [dilation_h, dilation_w]),
                    (''padding'', AInts [0, 0])];
         params1 = (if is_depthconv
                    then params0 @ [(''channels'', AInt (int d2 * int d3)),
                                    (''groups'', AInt (int d2))]
                    else if is_deconv then params0 @ [(''channels'', AInt (int d2))]
                    else params0 @ [(''channels'', AInt (int d3))])
     in
     bindE (if padding keras_layer = ''valid'' then ret (inexpr, params1)
            else if padding keras_layer = ''same'' then
              bindE (lift (same_pads (input_shape keras_layer)
                             dilated_kernel_h dilated_kernel_w stride_h stride_w))
                (\<lambda>((pad_t, pad_b), (pad_l, pad_r)).
                   if pad_t = pad_b \<and> pad_l = pad_r
                   then ret (inexpr, AList.update ''padding'' (AInts [pad_t, pad_l]) params1)
                   else ret (op_pad inexpr [(0, 0), (0, 0), (pad_t, pad_b), (pad_l, pad_r)],
                             params1))
            else raise (TypeError (''Unsupported padding type : '' @ padding keras_layer)))
       (\<lambda>(data, params2).
     let out = (if is_deconv then Call Conv2dTranspose [data, weight_ref] params2
                else Call Conv2d [data, weight_ref] params2)
     in conv_finish keras_layer out)))))))"

section \<open>Recurrent layers\<close>

text \<open>
  \<open>tuple(dim if dim else 1 for dim in _as_list(shape)[0])\<close>: \<open>_as_list\<close> wraps a single
  shape (a tuple) into a list and leaves a list of shapes alone, so the first shape is
  taken; a dimension that is \<open>None\<close> or zero becomes 1.
\<close>

definition first_shape :: "shape_attr \<Rightarrow> error + nat list" where
  "first_shape s =
     (let dims_of = map (\<lambda>d. case d of None \<Rightarrow> 1 | Some n \<Rightarrow> if n = 0 then 1 else n)
      in case s of
           Shape dims \<Rightarrow> Inr (dims_of dims)
         | Shapes ss \<Rightarrow> (case ss of [] \<Rightarrow> Inl IndexError | dims # _ \<Rightarrow> Inr (dims_of dims)))"

text \<open>The weights of a recurrent layer as the three rules register them.\<close>

definition recurrent_weights :: "layer \<Rightarrow> (expr \<times> expr \<times> expr \<times> nat) conv" where
  "recurrent_weights keras_layer =
     (let weightList = get_weights keras_layer in
      bindE (lift (py_index weightList 0)) (\<lambda>w0.
      bindE (lift (np_transpose w0 [1, 0])) (\<lambda>w0t.
      bindE (new_const w0t) (\<lambda>kernel_weight.
      bindE (lift (py_index weightList 1)) (\<lambda>w1.
      bindE (lift (np_transpose w1 [1, 0])) (\<lambda>w1t.
      bindE (new_const w1t) (\<lambda>recurrent_weight.
      bindE (lift (py_index weightList 2)) (\<lambda>w2.
      bindE (new_const w2) (\<lambda>in_bias.
      bindE (lift (py_index (shape w0) 1)) (\<lambda>units.
      ret (kernel_weight, recurrent_weight, in_bias, units)))))))))))"

text \<open>One pass of the loop body of \<open>_convert_lstm\<close>, and the loop over the time steps.\<close>

definition lstm_step ::
  "layer \<Rightarrow> expr \<Rightarrow> expr \<Rightarrow> expr \<Rightarrow> nat \<Rightarrow> expr \<Rightarrow> expr \<times> expr \<Rightarrow> error + (expr \<times> expr)" where
  "lstm_step keras_layer kernel_weight recurrent_weight in_bias units' data hc =
     (let (next_h, next_c) = hc;
          ixh1 = op_dense data kernel_weight (int units');
          ixh2 = op_bias_add (op_dense next_h recurrent_weight (int units')) in_bias;
          gate = op_add ixh1 ixh2;
          gates = op_split_sections gate 4 1
      in
      bindS (tw_item gates 0) (\<lambda>g0.
      bindS (convert_recurrent_activation g0 keras_layer) (\<lambda>in_gate.
      bindS (tw_item gates 1) (\<lambda>g1.
      bindS (convert_recurrent_activation g1 keras_layer) (\<lambda>in_transform.
      bindS (tw_item gates 2) (\<lambda>g2.
      bindS (convert_activation g2 (ActLayer keras_layer)) (\<lambda>cand.
      let next_c = op_add (op_multiply in_transform next_c) (op_multiply in_gate cand) in
      bindS (tw_item gates 3) (\<lambda>g3.
      bindS (convert_recurrent_activation g3 keras_layer) (\<lambda>out_gate.
      bindS (convert_activation next_c (ActLayer keras_layer)) (\<lambda>act_c.
      Inr (op_multiply out_gate act_c, next_c)))))))))))"

fun lstm_loop ::
  "layer \<Rightarrow> expr \<Rightarrow> expr \<Rightarrow> expr \<Rightarrow> nat \<Rightarrow> expr list \<Rightarrow> expr \<times> expr \<Rightarrow> error + (expr \<times> expr)" where
  "lstm_loop keras_layer kernel_weight recurrent_weight in_bias units' [] hc = Inr hc"
| "lstm_loop keras_layer kernel_weight recurrent_weight in_bias units' (data # rest) hc =
     (case lstm_step keras_layer kernel_weight recurrent_weight in_bias units' data hc of
        Inl e \<Rightarrow> Inl e
      | Inr hc' \<Rightarrow> lstm_loop keras_layer kernel_weight recurrent_weight in_bias units' rest hc')"

definition convert_lstm :: "exprs_arg \<Rightarrow> layer \<Rightarrow> exprs_arg conv" where
  "convert_lstm inexpr keras_layer =
     bindE (lift (check_data_format keras_layer)) (\<lambda>_.
     bindE (case inexpr of
              Many es \<Rightarrow> ret es
            | Single e \<Rightarrow>
                (let buf = Zeros [1, units keras_layer] ''float32'' in
                 bindE (new_const buf) (\<lambda>c_op.
                 bindE (new_const buf) (\<lambda>h_op.
                 ret [e, h_op, c_op])))) (\<lambda>inexpr.
     bindE (lift (py_index inexpr 0)) (\<lambda>in_data.
     bindE (lift (py_index inexpr 1)) (\<lambda>next_h.
     bindE (lift (py_index inexpr 2)) (\<lambda>next_c.
     bindE (lift (first_shape (input_shape keras_layer))) (\<lambda>in_shape.
     bindE (recurrent_weights keras_layer) (\<lambda>(kernel_weight, recurrent_weight, in_bias, units').
     bindE (lift (py_index in_shape 1)) (\<lambda>time_steps.
     let in_data = op_squeeze in_data [0];
         in_data = op_split_sections in_data time_steps 0
     in
     bindE (lift (lstm_loop keras_layer kernel_weight recurrent_weight in_bias units'
                    (tw_items in_data) (next_h, next_c))) (\<lambda>(next_h, next_c).
     bindE (lift (first_shape (output_shape keras_layer))) (\<lambda>out_shape.
     let out = op_reshape next_h (map int out_shape)
     in ret (Many [out, next_h, next_c])))))))))))"

definition convert_simple_rnn :: "exprs_arg \<Rightarrow> layer \<Rightarrow> exprs_arg conv" where
  "convert_simple_rnn inexpr keras_layer =
     bindE (lift (check_data_format keras_layer)) (\<lambda>_.
     bindE (case inexpr of
              Many es \<Rightarrow> ret es
            | Single e \<Rightarrow>
                (let buf = Zeros [1, units keras_layer] ''float32'' in
                 bindE (new_const buf) (\<lambda>prev_op.
                 ret [e, prev_op]))) (\<lambda>inexpr.
     bindE (lift (py_index inexpr 0)) (\<lambda>in_data.
     bindE (lift (py_index inexpr 1)) (\<lambda>prev_op.
     bindE (recurrent_weights keras_layer) (\<lambda>(kernel_weight, recurrent_weight, in_bias, units').
     let in_data = op_batch_flatten in_data;
         ixh = op_bias_add (op_dense in_data kernel_weight (int units')) in_bias;
         prev_op = op_batch_flatten prev_op;
         ixh2 = op_dense prev_op recurrent_weight (int units');
         output = op_add ixh ixh2
     in
     bindE (lift (convert_activation output (ActLayer keras_layer))) (\<lambda>output.
     bindE (lift (first_shape (output_shape keras_layer))) (\<lambda>out_shape.
     let output = op_reshape output (map int out_shape)
     in ret (Many [output, output]))))))))"

definition convert_gru :: "exprs_arg \<Rightarrow> layer \<Rightarrow> exprs_arg conv" where
  "convert_gru inexpr keras_layer =
     bindE (lift (check_data_format keras_layer)) (\<lambda>_.
     bindE (case inexpr of
              Many es \<Rightarrow> ret es
            | Single e \<Rightarrow>
                (let buf = Zeros [1, units keras_layer] ''float32'' in
                 bindE (new_const buf) (\<lambda>h_tm1.
                 ret [e, h_tm1]))) (\<lambda>inexpr.
     bindE (lift (py_index inexpr 0)) (\<lambda>in_data.
     bindE (lift (py_index inexpr 1)) (\<lambda>h_tm1_op.
     bindE (recurrent_weights keras_layer) (\<lambda>(kernel_weight, recurrent_weight, in_bias, units').
     let in_data = op_batch_flatten in_data;
         matrix_x = op_bias_add (op_dense in_data kernel_weight (int units')) in_bias;
         split_indices = [int (units keras_layer), 2 * int (units keras_layer)];
         gates = op_split_indices matrix_x split_indices 1
     in
     bindE (lift (tw_item gates 0)) (\<lambda>x_z.
     bindE (lift (tw_item gates 1)) (\<lambda>x_r.
     bindE (lift (tw_item gates 2)) (\<lambda>x_h.
     let units2 = 2 * int (units keras_layer);
         split_indices = [units2];
         rec_weights = op_split_indices recurrent_weight split_indices 0;
         h_tm1_op = op_batch_flatten h_tm1_op
     in
     bindE (lift (tw_item rec_weights 0)) (\<lambda>rec_weights0.
     let matrix_inner = op_dense h_tm1_op rec_weights0 units2;
         split_indices = [int (units keras_layer)];
         recurrent = op_split_indices matrix_inner split_indices 1
     in
     bindE (lift (tw_item recurrent 0)) (\<lambda>recurrent_z.
     bindE (lift (tw_item recurrent 1)) (\<lambda>recurrent_r.
     bindE (lift (convert_recurrent_activation (op_add x_z recurrent_z) keras_layer)) (\<lambda>rec_act_z.
     bindE (lift (convert_recurrent_activation (op_add x_r recurrent_r) keras_layer)) (\<lambda>rec_act_r.
     bindE (lift (tw_item rec_weights 1)) (\<lambda>rec_weights1.
     let recurrent_h = op_dense (op_multiply rec_act_r h_tm1_op) rec_weights1
                         (int (units keras_layer))
     in
     bindE (lift (convert_activation (op_add x_h recurrent_h) (ActLayer keras_layer))) (\<lambda>act_hh.
     let output = op_add (op_multiply rec_act_z h_tm1_op)
                         (op_multiply (op_subtract (const 1) rec_act_z) act_hh)
     in
     bindE (lift (first_shape (output_shape keras_layer))) (\<lambda>out_shape.
     let output = op_reshape output (map int out_shape)
     in ret (Many [output, output])))))))))))))))))"

definition default_skip :: "exprs_arg \<Rightarrow> layer \<Rightarrow> exprs_arg conv" where
  "default_skip inexpr keras_layer = ret inexpr"

section \<open>Dispatch and graph walk\<close>

text \<open>
  The dispatch table \<open>_convert_map\<close>: the supported layer kinds and the rule of each.
\<close>

datatype rule =
    ConvertDense | ConvertActivation | ConvertAdvancedActivation | ConvertPooling
  | ConvertConvolution | ConvertSeparableConvolution | ConvertFlatten | ConvertReshape
  | ConvertConcat | ConvertBatchnorm | ConvertMerge | ConvertPadding | ConvertUpsample
  | ConvertCropping | ConvertSimpleRnn | ConvertLstm | ConvertGru | DefaultSkip

definition convert_map :: "(string \<times> rule) list" where
  "convert_map =
     [(''Dense'', ConvertDense),
      (''Activation'', ConvertActivation),
      (''ReLU'', ConvertAdvancedActivation),
      (''LeakyReLU'', ConvertAdvancedActivation),
      (''PReLU'', ConvertAdvancedActivation),
      (''ELU'', ConvertAdvancedActivation),
      (''ThresholdedReLU'', ConvertAdvancedActivation),
      (''AveragePooling2D'', ConvertPooling),
      (''MaxPooling2D'', ConvertPooling),
      (''GlobalAveragePooling2D'', ConvertPooling),
      (''GlobalMaxPooling2D'', ConvertPooling),
      (''Conv2D'', ConvertConvolution),
      (''Conv2DTranspose'', ConvertConvolution),
      (''DepthwiseConv2D'', ConvertConvolution),
      (''SeparableConv2D'', ConvertSeparableConvolution),
      (''Flatten'', ConvertFlatten),
      (''Reshape'', ConvertReshape),
      (''Concatenate'', ConvertConcat),
      (''BatchNormalization'', ConvertBatchnorm),
      (''Add'', ConvertMerge),
      (''Subtract'', ConvertMerge),
      (''Multiply'', ConvertMerge),
      (''ZeroPadding2D'', ConvertPadding),
      (''UpSampling2D'', ConvertUpsample),
      (''Cropping2D'', ConvertCropping),
      (''SimpleRNN'', ConvertSimpleRnn),
      (''LSTM'', ConvertLstm),
      (''GRU'', ConvertGru),
      (''Average'', ConvertMerge),
      (''Maximum'', ConvertMerge),
      (''InputLayer'', DefaultSkip),
      (''Dropout'', DefaultSkip),
      (''SpatialDropout2D'', DefaultSkip),
      (''SpatialDropout1D'', DefaultSkip)]"

definition as_list :: "exprs_arg \<Rightarrow> expr list" where
  "as_list arr = (case arr of Many es \<Rightarrow> es | Single e \<Rightarrow> [e])"

text \<open>
  A rule that applies an operator to its input needs one expression: the operator's
  constructor rejects a Python list. The model raises that error where the rule is
  entered.
\<close>

definition single :: "exprs_arg \<Rightarrow> error + expr" where
  "single inexpr =
     (case inexpr of
        Single e \<Rightarrow> Inr e
      | Many es \<Rightarrow> Inl (TypeError ''expected an expression, got a list''))"

text \<open>
  The rules for the activation, convolution and recurrent layers and the pass-through
  rule are the functions above. The remaining rules of the table (dense, pooling,
  separable convolution, flatten, reshape, concatenate, batch normalisation, merge,
  padding, upsampling, cropping) are the parameter \<open>others\<close>; what is proved below holds
  whatever they do.
\<close>

type_synonym rules = "rule \<Rightarrow> exprs_arg \<Rightarrow> layer \<Rightarrow> exprs_arg conv"

definition apply_rule :: "rules \<Rightarrow> rule \<Rightarrow> exprs_arg \<Rightarrow> layer \<Rightarrow> exprs_arg conv" where
  "apply_rule others r inexpr keras_layer =
     (case r of
        ConvertActivation \<Rightarrow>
          bindE (lift (single inexpr)) (\<lambda>e.
          bindE (lift (convert_activation e (ActLayer keras_layer))) (\<lambda>out. ret (Single out)))
      | ConvertAdvancedActivation \<Rightarrow>
          bindE (lift (single inexpr)) (\<lambda>e.
          bindE (convert_advanced_activation e keras_layer) (\<lambda>out. ret (Single out)))
      | ConvertConvolution \<Rightarrow>
          bindE (lift (single inexpr)) (\<lambda>e.
          bindE (convert_convolution e keras_layer) (\<lambda>out. ret (Single out)))
      | ConvertSimpleRnn \<Rightarrow> convert_simple_rnn inexpr keras_layer
      | ConvertLstm \<Rightarrow> convert_lstm inexpr keras_layer
      | ConvertGru \<Rightarrow> convert_gru inexpr keras_layer
      | DefaultSkip \<Rightarrow> default_skip inexpr keras_layer
      | _ \<Rightarrow> others r inexpr keras_layer)"

definition check_unsupported_layers :: "layer list \<Rightarrow> error + unit" where
  "check_unsupported_layers ls =
     (case find (\<lambda>l. kind l \<notin> set (map fst convert_map)) ls of
        Some l \<Rightarrow> Inl (ValueError (''Keras layer '' @ kind l @ '' not supported.''))
      | None \<Rightarrow> Inr ())"

fun set_outs :: "string \<Rightarrow> nat \<Rightarrow> expr list \<Rightarrow> unit conv" where
  "set_outs outname t_idx [] = ret ()"
| "set_outs outname t_idx (out # rest) =
     bindE (set_expr (outname @ '':'' @ str_nat t_idx) out) (\<lambda>_.
     set_outs outname (Suc t_idx) rest)"

definition keras_op_to_relay :: "rules \<Rightarrow> exprs_arg \<Rightarrow> layer \<Rightarrow> string \<Rightarrow> unit conv" where
  "keras_op_to_relay others inexpr keras_layer outname =
     (case map_of convert_map (kind keras_layer) of
        None \<Rightarrow> raise (NotImplementedError (kind keras_layer @ '' is not supported''))
      | Some r \<Rightarrow>
          bindE (apply_rule others r inexpr keras_layer) (\<lambda>outs.
          set_outs outname 0 (as_list outs)))"

text \<open>
  The Keras model: its layers in declared order, the keys of the call-sites that belong
  to the model (\<open>_network_nodes\<close>; the key of a call-site is \<open>_node_key\<close>), and the output
  coordinates (layer name, call-site index, output slot). An inbound layer of a
  call-site is read for its name and for whether it is an input layer.
\<close>

record keras_model =
  layers :: "layer list"
  network_nodes :: "string list"
  output_coordinates :: "(string \<times> nat \<times> nat) list"

record keras_env =
  keras_installed :: bool
  backend :: string
  image_data_format :: string

definition node_key :: "layer \<Rightarrow> nat \<Rightarrow> string" where
  "node_key keras_layer node_idx = name keras_layer @ ''_ib-'' @ str_nat node_idx"

fun resolve_inputs :: "(nat \<times> nat \<times> string \<times> bool) list \<Rightarrow> expr list conv" where
  "resolve_inputs [] = ret []"
| "resolve_inputs ((n_idx, t_idx, lname, is_input) # rest) =
     (let expr_name = (if is_input then lname
                       else lname @ '':'' @ str_nat n_idx @ '':'' @ str_nat t_idx)
      in bindE (get_expr expr_name) (\<lambda>e.
         bindE (resolve_inputs rest) (\<lambda>es. ret (e # es))))"

fun convert_nodes ::
  "rules \<Rightarrow> keras_model \<Rightarrow> layer \<Rightarrow> nat \<Rightarrow> inbound_node list \<Rightarrow> unit conv" where
  "convert_nodes others model keras_layer node_idx [] = ret ()"
| "convert_nodes others model keras_layer node_idx (node # rest) =
     (if node_key keras_layer node_idx \<notin> set (network_nodes model)
      then convert_nodes others model keras_layer (Suc node_idx) rest
      else
        bindE (resolve_inputs (zip (node_indices node)
                                 (zip (tensor_indices node) (inbound_layers node)))) (\<lambda>es.
        let inexpr = (if length es = 1 then Single (es ! 0) else Many es) in
        bindE (keras_op_to_relay others inexpr keras_layer
                 (name keras_layer @ '':'' @ str_nat node_idx)) (\<lambda>_.
        convert_nodes others model keras_layer (Suc node_idx) rest)))"

fun convert_layers ::
  "rules \<Rightarrow> keras_model \<Rightarrow> (string \<times> nat list) list \<Rightarrow> layer list \<Rightarrow> unit conv" where
  "convert_layers others model shape_dict [] = ret ()"
| "convert_layers others model shape_dict (keras_layer # rest) =
     bindE (if is_input_layer keras_layer then
              (let input_name = name keras_layer;
                   shape' = map_of shape_dict input_name
               in set_expr input_name (Var input_name shape' ''float32''))
            else
              (case inbound_nodes keras_layer of
                 None \<Rightarrow> raise (TypeError ''Unknown layer type or unsupported Keras version'')
               | Some nodes \<Rightarrow> convert_nodes others model keras_layer 0 nodes)) (\<lambda>_.
     convert_layers others model shape_dict rest)"

fun get_outputs :: "(string \<times> nat \<times> nat) list \<Rightarrow> expr list conv" where
  "get_outputs [] = ret []"
| "get_outputs ((lname, node_index, tensor_index) # rest) =
     bindE (get_expr (lname @ '':'' @ str_nat node_index @ '':'' @ str_nat tensor_index)) (\<lambda>e.
     bindE (get_outputs rest) (\<lambda>es. ret (e # es)))"

text \<open>
  Modelled from the spec: \<open>ir_pass.free_vars\<close>, which is not among the sources. The spec
  has it compute the free input variables the output values depend on; here they are
  listed in order of first occurrence.
\<close>

fun free_vars :: "expr \<Rightarrow> expr list" where
  "free_vars (Var n s d) = [Var n s d]"
| "free_vars (Const v d) = []"
| "free_vars (Call f args attrs) = remdups (concat (map free_vars args))"
| "free_vars (Tuple es) = remdups (concat (map free_vars es))"
| "free_vars (TupleGetItem e i) = free_vars e"

datatype func = Function "expr list" expr

text \<open>
  \<open>from_keras\<close> returns the function and the parameters, or the exception. The second
  component of the model's result is the expression table as it is when \<open>from_keras\<close>
  returns or raises: \<open>None\<close> when no table was created.
\<close>

definition from_keras ::
  "rules \<Rightarrow> keras_env \<Rightarrow> keras_model \<Rightarrow> (string \<times> nat list) list \<Rightarrow>
     (error + (func \<times> (string \<times> ndarray) list)) \<times> exprtable option" where
  "from_keras others env model shape_dict =
     (if \<not> keras_installed env then (Inl (ImportError ''Keras must be installed''), None)
      else if backend env \<noteq> ''tensorflow''
      then (Inl (ValueError ''Keras frontend currently supports tensorflow backend only.''), None)
      else if image_data_format env \<noteq> ''channels_last''
      then (Inl (ValueError ''Keras frontend currently supports data_format = channels_last only.''),
            None)
      else
        (case check_unsupported_layers (layers model) of
           Inl e \<Rightarrow> (Inl e, None)
         | Inr _ \<Rightarrow>
             (let etab = new_table;
                  (r, etab') =
                    bindE (convert_layers others model shape_dict (layers model)) (\<lambda>_.
                    get_outputs (output_coordinates model)) etab
              in case r of
                   Inl e \<Rightarrow> (Inl e, Some etab')
                 | Inr outs \<Rightarrow>
                     (let outexpr = (if length outs = 1 then outs ! 0 else Tuple outs);
                          func = Function (free_vars outexpr) outexpr;
                          params' = map (\<lambda>(k, v). (k, AsFloat32 v)) (params etab')
                      in (Inr (func, params'), Some etab')))))"

section \<open>Reference semantics used by the stated properties\<close>

text \<open>
  Modelled from the spec: the meaning of the primitive operators, which belong to the
  destination IR and are not among the sources. The spec names them by their
  mathematical functions (\<open>relu\<close>, \<open>exp\<close>, \<open>log\<close>, \<open>clip\<close>, absolute value and the
  arithmetic operators); \<open>eval\<close> gives a closed scalar expression that meaning over the
  reals, and is undefined (\<open>None\<close>) on anything else and where the function is.
\<close>

definition eval_op :: "opname \<Rightarrow> real list \<Rightarrow> (string \<times> attr) list \<Rightarrow> real option" where
  "eval_op f vs attrs =
     (case (f, vs) of
        (Negative, [a]) \<Rightarrow> Some (- a)
      | (Relu, [a]) \<Rightarrow> Some (max a 0)
      | (Exp, [a]) \<Rightarrow> Some (exp a)
      | (Log, [a]) \<Rightarrow> (if 0 < a then Some (ln a) else None)
      | (Abs, [a]) \<Rightarrow> Some \<bar>a\<bar>
      | (Sigmoid, [a]) \<Rightarrow> Some (1 / (1 + exp (- a)))
      | (Tanh, [a]) \<Rightarrow> Some (tanh a)
      | (Add, [a, b]) \<Rightarrow> Some (a + b)
      | (Subtract, [a, b]) \<Rightarrow> Some (a - b)
      | (Multiply, [a, b]) \<Rightarrow> Some (a * b)
      | (Divide, [a, b]) \<Rightarrow> (if b = 0 then None else Some (a / b))
      | (Maximum, [a, b]) \<Rightarrow> Some (max a b)
      | (Clip, [a]) \<Rightarrow>
          (case (map_of attrs ''a_min'', map_of attrs ''a_max'') of
             (Some (AReal lo), Some (AReal hi)) \<Rightarrow> Some (min (max a lo) hi)
           | _ \<Rightarrow> None)
      | _ \<Rightarrow> None)"

fun eval :: "expr \<Rightarrow> real option" where
  "eval (Const v dtype) = Some v"
| "eval (Call f args attrs) =
     (let vs = map eval args
      in if None \<in> set vs then None else eval_op f (map the vs) attrs)"
| "eval (Var n s d) = None"
| "eval (Tuple es) = None"
| "eval (TupleGetItem e i) = None"

text \<open>The value of a lowered activation at the scalar input \<open>v\<close>.\<close>

definition activation_value :: "act_arg \<Rightarrow> real \<Rightarrow> real option" where
  "activation_value keras_layer v =
     (case convert_activation (const v) keras_layer of
        Inl e \<Rightarrow> None
      | Inr e \<Rightarrow> eval e)"

text \<open>
  The lowering of a convolution in the spec's words, for comparison with
  \<open>convert_convolution\<close>. \<open>conv_node\<close> is the convolution (a transposed one for
  Conv2DTranspose) of \<open>data\<close> with the transposed kernel registered on the table \<open>t\<close>,
  with the kernel size, the strides, the dilation \<open>(dh, dw)\<close>, the padding parameter \<open>pad\<close>
  and the channel count (for a depthwise layer \<open>in_channels * depth_multiplier\<close> and
  \<open>groups = in_channels\<close>). \<open>conv_lowered\<close> is what the rule returns around that node:
  the bias added when the layer uses one, registered after the kernel, then the fused
  activation unless it is \<open>linear\<close>, together with the table holding the new constants.
\<close>

definition conv_node ::
  "layer \<Rightarrow> ndarray \<Rightarrow> nat \<Rightarrow> nat \<Rightarrow> nat \<Rightarrow> nat \<Rightarrow> int \<Rightarrow> int \<Rightarrow> int \<Rightarrow> int \<Rightarrow>
     exprtable \<Rightarrow> expr \<Rightarrow> int list \<Rightarrow> expr" where
  "conv_node l w0 kh kw c2 c3 dh dw sh sw t data pad =
     Call (if kind l = ''Conv2DTranspose'' then Conv2dTranspose else Conv2d)
       [data,
        const_ref t (Transposed w0 (if kind l = ''DepthwiseConv2D'' then [2, 3, 0, 1]
                                    else [3, 2, 0, 1]))]
       ([(''kernel_size'', AInts [int kh, int kw]),
         (''strides'', AInts [sh, sw]),
         (''dilation'', AInts [dh, dw]),
         (''padding'', AInts pad)]
        @ (if kind l = ''DepthwiseConv2D''
           then [(''channels'', AInt (int c2 * int c3)), (''groups'', AInt (int c2))]
           else if kind l = ''Conv2DTranspose'' then [(''channels'', AInt (int c2))]
           else [(''channels'', AInt (int c3))]))"

definition conv_lowered ::
  "layer \<Rightarrow> ndarray \<Rightarrow> ndarray list \<Rightarrow> exprtable \<Rightarrow> expr \<Rightarrow> (error + expr) \<times> exprtable" where
  "conv_lowered l w0 ws t node =
     (let t1 = with_const t (Transposed w0 (if kind l = ''DepthwiseConv2D'' then [2, 3, 0, 1]
                                            else [3, 2, 0, 1]));
          out = (if use_bias l then op_bias_add node (const_ref t1 (hd ws)) else node);
          t2 = (if use_bias l then with_const t1 (hd ws) else t1)
      in (if activation l = ''linear'' then Inr out
          else convert_activation out (ActName (activation l)),
          t2))"

text \<open>
  The LSTM cell in the spec's words, for comparison with \<open>lstm_loop\<close>: the gate vector
  is \<open>dense(x_t, kernel) + bias_add(dense(h, recurrent_kernel), bias)\<close>, split into four
  equal chunks in the order input, forget (transform), cell candidate, output; with
  \<open>rec_act\<close> the recurrent activation and \<open>act\<close> the main one,
  \<open>c = forget * c + input * candidate\<close> and \<open>h = output * act c\<close>.
\<close>

definition lstm_cell_spec ::
  "(expr \<Rightarrow> expr) \<Rightarrow> (expr \<Rightarrow> expr) \<Rightarrow> expr \<Rightarrow> expr \<Rightarrow> expr \<Rightarrow> nat \<Rightarrow>
     expr \<times> expr \<Rightarrow> expr \<Rightarrow> expr \<times> expr" where
  "lstm_cell_spec rec_act act kernel_weight recurrent_weight bias n hc x_t =
     (let (h, c) = hc;
          gate = op_add (op_dense x_t kernel_weight (int n))
                        (op_bias_add (op_dense h recurrent_weight (int n)) bias);
          chunks = Call Split [gate] [(''indices_or_sections'', AInt 4), (''axis'', AInt 1)];
          input_gate = rec_act (TupleGetItem chunks 0);
          forget_gate = rec_act (TupleGetItem chunks 1);
          candidate = act (TupleGetItem chunks 2);
          output_gate = rec_act (TupleGetItem chunks 3);
          c' = op_add (op_multiply forget_gate c) (op_multiply input_gate candidate);
          h' = op_multiply output_gate (act c')
      in (h', c'))"

text \<open>The per-time-step slices: the \<open>T\<close> parts of the squeezed input split along axis 0.\<close>

definition time_slices :: "expr \<Rightarrow> nat \<Rightarrow> expr list" where
  "time_slices x T =
     map (TupleGetItem (Call Split [op_squeeze x [0]]
                          [(''indices_or_sections'', AInt (int T)), (''axis'', AInt 0)]))
         [0 ..< T]"

text \<open>
  Histories of table operations, to speak of names \<open>never written\<close> and \<open>previously
  returned\<close>: \<open>run_ops\<close> applies the operations in order to a table and collects the
  names that \<open>new_const\<close> has returned.
\<close>

datatype table_op = OpSet string expr | OpGet string | OpNewConst ndarray

fun ref_name :: "expr \<Rightarrow> string" where
  "ref_name (Var n s d) = n"
| "ref_name e = []"

fun step_op :: "exprtable \<times> string list \<Rightarrow> table_op \<Rightarrow> exprtable \<times> string list" where
  "step_op (t, returned) (OpSet n v) = (snd (set_expr n v t), returned)"
| "step_op (t, returned) (OpGet n) = (snd (get_expr n t), returned)"
| "step_op (t, returned) (OpNewConst a) =
     (case new_const a t of
        (Inr r, t') \<Rightarrow> (t', returned @ [ref_name r])
      | (Inl e, t') \<Rightarrow> (t', returned))"

definition run_ops :: "table_op list \<Rightarrow> exprtable \<times> string list" where
  "run_ops ops = foldl step_op (new_table, []) ops"

text \<open>
  A table computation only grows the constant registry when, from every table, the
  registry it leaves is the one it found followed by new entries.
\<close>

definition grows :: "'a conv \<Rightarrow> bool" where
  "grows m = (\<forall>t. \<exists>ps. params (snd (m t)) = params t @ ps)"

section \<open>Example layers\<close>

text \<open>
  A 3x3 convolution with four filters, dilation (2, 3), stride 2, a bias, a relu
  activation and \<open>same\<close> padding on an 8x7 input, and an LSTM with sigmoid gates and tanh activation over two time steps.
\<close>

definition conv_example :: layer where
  "conv_example = blank_layer\<lparr>kind := ''Conv2D'',
                    get_weights := [Weights [3, 3, 1, 4] [], Weights [4] []],
                    use_bias := True, activation := ''relu'',
                    dilation_rate := Rates [2, 3],
                    strides := (2, 2), padding := ''same'',
                    input_shape := Shape [None, Some 8, Some 7, Some 1]\<rparr>"

definition lstm_example :: layer where
  "lstm_example = blank_layer\<lparr>kind := ''LSTM'', name := ''lstm_1'',
                    activation := ''tanh'', recurrent_activation := ''sigmoid'',
                    get_weights := [Weights [3, 8] [], Weights [2, 8] [], Weights [8] []],
                    input_shape := Shape [Some 1, Some 2, Some 3],
                    output_shape := Shape [None, Some 2], units := 2,
                    inbound_nodes := Some [\<lparr>node_indices = [0], tensor_indices = [0],
                                            inbound_layers = [(''input_1'', True)]\<rparr>]\<rparr>"



section \<open>Properties of the padding calculator\<close>

lemma out1d_bounds:
  fixes i s :: int
  assumes "0 < s"
  defines "out \<equiv> (i + s - 1) div s"
  shows "(out - 1) * s < i" and "i \<le> out * s"
proof -
  have m: "i + s - 1 = out * s + (i + s - 1) mod s"
    unfolding out_def by simp
  have r: "0 \<le> (i + s - 1) mod s" "(i + s - 1) mod s < s"
    using assms(1) by simp_all
  show "(out - 1) * s < i" using m r by (simp add: algebra_simps)
  show "i \<le> out * s" using m r by (simp add: algebra_simps)
qed

lemma out1d_ceiling:
  fixes i s :: int
  assumes "0 < s"
  shows "\<lceil>real_of_int i / real_of_int s\<rceil> = (i + s - 1) div s"
proof (rule ceiling_unique)
  let ?out = "(i + s - 1) div s"
  have "real_of_int ((?out - 1) * s) < real_of_int i"
    using out1d_bounds(1)[OF assms, of i] by (simp only: of_int_less_iff)
  then show "real_of_int ?out - 1 < real_of_int i / real_of_int s"
    using assms by (simp add: pos_less_divide_eq)
  have "real_of_int i \<le> real_of_int (?out * s)"
    using out1d_bounds(2)[OF assms, of i] by (simp only: of_int_le_iff)
  then show "real_of_int i / real_of_int s \<le> real_of_int ?out"
    using assms by (simp add: pos_divide_le_eq)
qed

lemma padded_div:
  fixes i k s :: int
  assumes "0 < s" "0 < k"
  defines "out \<equiv> (i + s - 1) div s"
  defines "pad \<equiv> max ((out - 1) * s + k - i) 0"
  shows "(i + pad - k) div s = out - 1"
proof (cases "0 \<le> (out - 1) * s + k - i")
  case True
  then have "i + pad - k = (out - 1) * s" by (simp add: pad_def)
  then show ?thesis using assms(1) by simp
next
  case False
  then have p: "pad = 0" by (simp add: pad_def)
  have b: "i \<le> out * s" unfolding out_def by (rule out1d_bounds(2)[OF assms(1)])
  show ?thesis
  proof (rule int_div_pos_eq[where r = "i - k - (out - 1) * s"])
    show "i + pad - k = s * (out - 1) + (i - k - (out - 1) * s)" by (simp add: p)
    show "0 \<le> i - k - (out - 1) * s" using False by simp
    show "i - k - (out - 1) * s < s" using b assms(2) by (simp add: algebra_simps)
  qed
qed

text \<open>
  Claim C1 (as amended): for positive \<open>input_size\<close>, \<open>kernel_size\<close> and \<open>stride\<close> whose
  unclipped total padding \<open>(ceil (input_size / stride) - 1) * stride + kernel_size -
  input_size\<close> lies in the 64-bit integer range, the padding calculator does not fail; it
  returns \<open>(pad_before, pad_after)\<close> with \<open>total_pad\<close> the maximum of that value and 0,
  \<open>pad_before = total_pad div 2\<close>, \<open>pad_after = total_pad - pad_before\<close>, and the padded size
  satisfies
  \<open>ceil (input_size / stride) = floor ((input_size + pad_before + pad_after - kernel_size) / stride) + 1\<close>.
\<close>

theorem get_pad_pair_same:
  fixes input_size kernel_size stride :: int
  assumes "0 < input_size" and "0 < kernel_size" and "0 < stride"
    and "- (2 ^ 63) \<le> (\<lceil>real_of_int input_size / real_of_int stride\<rceil> - 1) * stride
                          + kernel_size - input_size"
    and "(\<lceil>real_of_int input_size / real_of_int stride\<rceil> - 1) * stride
           + kernel_size - input_size < 2 ^ 63"
  shows "\<exists>pad_before pad_after total_pad.
           get_pad_pair input_size kernel_size stride = Inr (pad_before, pad_after) \<and>
           total_pad = max ((\<lceil>real_of_int input_size / real_of_int stride\<rceil> - 1) * stride
                             + kernel_size - input_size) 0 \<and>
           pad_before = total_pad div 2 \<and>
           pad_after = total_pad - pad_before \<and>
           \<lceil>real_of_int input_size / real_of_int stride\<rceil> =
             \<lfloor>real_of_int (input_size + pad_before + pad_after - kernel_size)
               / real_of_int stride\<rfloor> + 1"
proof -
  let ?out = "(input_size + stride - 1) div stride"
  let ?pad = "max ((?out - 1) * stride + kernel_size - input_size) 0"
  have c: "\<lceil>real_of_int input_size / real_of_int stride\<rceil> = ?out"
    by (rule out1d_ceiling[OF assms(3)])
  have fit: "fits_int64 ((?out - 1) * stride + kernel_size - input_size)"
    using assms(4,5) unfolding c fits_int64_def by simp
  have m: "np_maximum ((?out - 1) * stride + kernel_size - input_size) 0 = Inr ?pad"
    using fit by (simp add: np_maximum_def fits_int64_def)
  have g: "get_pad_pair input_size kernel_size stride = Inr (?pad div 2, ?pad - ?pad div 2)"
    using assms(3) m by (simp add: get_pad_pair_def Let_def bindS_def)
  have "input_size + ?pad div 2 + (?pad - ?pad div 2) - kernel_size = input_size + ?pad - kernel_size"
    by simp
  then have f: "\<lfloor>real_of_int (input_size + ?pad div 2 + (?pad - ?pad div 2) - kernel_size)
               / real_of_int stride\<rfloor> = ?out - 1"
    using padded_div[OF assms(3) assms(2), of input_size]
    by (simp only: floor_divide_of_int_eq)
  show ?thesis
    using g c f by simp
qed

theorem get_pad_pair_same_witness:
  "(0::int) < 7 \<and> (0::int) < 3 \<and> (0::int) < 2
   \<and> - (2 ^ 63) \<le> (\<lceil>real_of_int 7 / real_of_int 2\<rceil> - 1) * 2 + 3 - (7::int)
   \<and> (\<lceil>real_of_int 7 / real_of_int 2\<rceil> - 1) * 2 + 3 - (7::int) < 2 ^ 63
   \<and> (\<exists>pad_before pad_after total_pad.
           get_pad_pair 7 3 2 = Inr (pad_before, pad_after) \<and>
           total_pad = max ((\<lceil>real_of_int 7 / real_of_int 2\<rceil> - 1) * 2 + 3 - 7) 0 \<and>
           pad_before = total_pad div 2 \<and>
           pad_after = total_pad - pad_before \<and>
           \<lceil>real_of_int 7 / real_of_int 2\<rceil> =
             \<lfloor>real_of_int (7 + pad_before + pad_after - 3) / real_of_int 2\<rfloor> + 1)"
proof -
  have c: "\<lceil>real_of_int 7 / real_of_int 2\<rceil> = (4::int)"
    using out1d_ceiling[of 2 7] by simp
  have h4: "- (2 ^ 63) \<le> (\<lceil>real_of_int 7 / real_of_int 2\<rceil> - 1) * 2 + 3 - (7::int)"
    unfolding c by simp
  have h5: "(\<lceil>real_of_int 7 / real_of_int 2\<rceil> - 1) * 2 + 3 - (7::int) < 2 ^ 63"
    unfolding c by simp
  from get_pad_pair_same[of 7 3 2, OF _ _ _ h4 h5] h4 h5 show ?thesis by simp
qed

text \<open>
  Beyond the 64-bit range the calculator does not return the exact pair: with input size
  1, kernel size \<open>2^63 + 4\<close> and stride 1 the maximum cannot be taken on 64-bit integers.
\<close>

theorem get_pad_pair_overflow: "get_pad_pair 1 (2 ^ 63 + 4) 1 = Inl OverflowError"
  by (simp add: get_pad_pair_def np_maximum_def fits_int64_def bindS_def)

text \<open>
  Claim C7 (as amended): for input size 7, kernel size 3 and stride 2 the padding
  calculator yields \<open>pad_before = 1\<close> and \<open>pad_after = 1\<close> (total padding 2, split evenly).
\<close>

theorem pad_pair_7_3_2: "get_pad_pair 7 3 2 = Inr (1, 1)"
  by (simp add: get_pad_pair_def np_maximum_def fits_int64_def bindS_def)

text \<open>
  The pair \<open>(0, 1)\<close> is not what the calculator returns at input 7, kernel 3, stride 2.
\<close>

theorem pad_pair_7_3_2_not_0_1: "get_pad_pair 7 3 2 \<noteq> Inr (0, 1)"
  by (simp add: get_pad_pair_def np_maximum_def fits_int64_def bindS_def)

section \<open>Properties of the activation lowering\<close>

lemma affine_not_identity: "op_add (op_multiply x a) b \<noteq> x"
proof
  assume "op_add (op_multiply x a) b = x"
  then have "size (op_add (op_multiply x a) b) = size x" by simp
  then show False by simp
qed

lemma elu_value:
  "eval (get_elu (const v) (const_f32 a)) = Some (if 0 \<le> v then v else a * (exp v - 1))"
  by (simp add: get_elu_def eval_op_def max_def algebra_simps)

text \<open>
  Claim C6: the lowering of each simple activation is exactly the stated expansion:
  softplus is \<open>log (exp x + 1)\<close>; elu is \<open>- alpha * relu (1 - exp x) + relu x\<close> with alpha
  1 unless the layer carries one; selu is \<open>gamma * elu (x, alpha)\<close> with the two fixed
  constants; relu6 is \<open>clip (x, 0, 6)\<close>; softsign is \<open>x / (1 + |x|)\<close>; hard_sigmoid is
  \<open>clip (0.2 x + 0.5, 0, 1)\<close>. Evaluated at a scalar \<open>v\<close> the expansions give the reference
  functions, in particular \<open>hard_sigmoid 0 = 0.5\<close>, \<open>relu6 10 = 6\<close>, \<open>softsign 0 = 0\<close>, and elu
  is \<open>v\<close> for \<open>v \<ge> 0\<close> and \<open>alpha * (exp v - 1)\<close> for \<open>v < 0\<close>.
\<close>

theorem activation_expansions:
  "convert_activation x (ActName ''softplus'') = Inr (op_log (op_add (op_exp x) (const 1)))
   \<and> convert_activation x (ActName ''elu'') =
       Inr (op_add (op_multiply (op_negative (const_f32 1))
                                (op_relu (op_subtract (const 1) (op_exp x))))
                   (op_relu x))
   \<and> convert_activation x (ActLayer (l\<lparr>activation := ''elu''\<rparr>)) =
       Inr (op_add (op_multiply (op_negative (const_f32 (case alpha l of None \<Rightarrow> 1 | Some a \<Rightarrow> a)))
                                (op_relu (op_subtract (const 1) (op_exp x))))
                   (op_relu x))
   \<and> convert_activation x (ActName ''selu'') =
       Inr (op_multiply (const_f32 1.0507009873554804934193349852946)
              (op_add (op_multiply (op_negative (const_f32 1.6732632423543772848170429916717))
                                   (op_relu (op_subtract (const 1) (op_exp x))))
                      (op_relu x)))
   \<and> convert_activation x (ActLayer (l\<lparr>activation := ''selu'', alpha := None, gamma := None\<rparr>)) =
       convert_activation x (ActName ''selu'')
   \<and> convert_activation x (ActName ''relu6'') = Inr (op_clip x 0 6)
   \<and> convert_activation x (ActName ''softsign'') =
       Inr (op_divide x (op_add (const 1) (op_abs x)))
   \<and> convert_activation x (ActName ''hard_sigmoid'') =
       Inr (op_clip (op_add (op_multiply (const 0.2) x) (const 0.5)) 0 1)
   \<and> activation_value (ActName ''softplus'') v = Some (ln (exp v + 1))
   \<and> activation_value (ActName ''elu'') v = Some (if 0 \<le> v then v else 1 * (exp v - 1))
   \<and> activation_value (ActLayer (l\<lparr>activation := ''elu'', alpha := Some a\<rparr>)) v =
       Some (if 0 \<le> v then v else a * (exp v - 1))
   \<and> activation_value (ActName ''selu'') v =
       Some (selu_gamma * (if 0 \<le> v then v else selu_alpha * (exp v - 1)))
   \<and> activation_value (ActName ''relu6'') v = Some (min (max v 0) 6)
   \<and> activation_value (ActName ''softsign'') v = Some (v / (1 + \<bar>v\<bar>))
   \<and> activation_value (ActName ''hard_sigmoid'') v = Some (min (max (0.2 * v + 0.5) 0) 1)
   \<and> activation_value (ActName ''hard_sigmoid'') 0 = Some 0.5
   \<and> activation_value (ActName ''relu6'') 10 = Some 6
   \<and> activation_value (ActName ''softsign'') 0 = Some 0"
proof -
  have pos: "0 < exp v + 1" by (simp add: add_pos_pos)
  have nz: "1 + \<bar>v\<bar> \<noteq> 0" by arith
  have s1: "convert_activation x (ActName ''softplus'') = Inr (op_log (op_add (op_exp x) (const 1)))"
    by (simp add: convert_activation_def)
  have s2: "convert_activation x (ActName ''elu'') =
       Inr (op_add (op_multiply (op_negative (const_f32 1))
                                (op_relu (op_subtract (const 1) (op_exp x))))
                   (op_relu x))"
    by (simp add: convert_activation_def get_elu_def)
  have s3: "convert_activation x (ActLayer (l\<lparr>activation := ''elu''\<rparr>)) =
       Inr (op_add (op_multiply (op_negative (const_f32 (case alpha l of None \<Rightarrow> 1 | Some a \<Rightarrow> a)))
                                (op_relu (op_subtract (const 1) (op_exp x))))
                   (op_relu x))"
    by (simp add: convert_activation_def get_elu_def)
  have s4: "convert_activation x (ActName ''selu'') =
       Inr (op_multiply (const_f32 1.0507009873554804934193349852946)
              (op_add (op_multiply (op_negative (const_f32 1.6732632423543772848170429916717))
                                   (op_relu (op_subtract (const 1) (op_exp x))))
                      (op_relu x)))"
    by (simp add: convert_activation_def get_elu_def selu_alpha_def selu_gamma_def)
  have s5: "convert_activation x (ActLayer (l\<lparr>activation := ''selu'', alpha := None, gamma := None\<rparr>)) =
       convert_activation x (ActName ''selu'')"
    by (simp add: convert_activation_def)
  have s6: "convert_activation x (ActName ''relu6'') = Inr (op_clip x 0 6)"
    by (simp add: convert_activation_def)
  have s7: "convert_activation x (ActName ''softsign'') =
       Inr (op_divide x (op_add (const 1) (op_abs x)))"
    by (simp add: convert_activation_def)
  have s8: "convert_activation x (ActName ''hard_sigmoid'') =
       Inr (op_clip (op_add (op_multiply (const 0.2) x) (const 0.5)) 0 1)"
    by (simp add: convert_activation_def)
  have v1: "activation_value (ActName ''softplus'') v = Some (ln (exp v + 1))"
    using pos by (simp add: activation_value_def convert_activation_def eval_op_def)
  have v2: "activation_value (ActName ''elu'') v = Some (if 0 \<le> v then v else 1 * (exp v - 1))"
    unfolding activation_value_def
    by (simp add: convert_activation_def elu_value del: eval.simps)
  have v3: "activation_value (ActLayer (l\<lparr>activation := ''elu'', alpha := Some a\<rparr>)) v =
       Some (if 0 \<le> v then v else a * (exp v - 1))"
    unfolding activation_value_def
    by (simp add: convert_activation_def elu_value del: eval.simps)
  have "eval (op_multiply (const_f32 selu_gamma) (get_elu (const v) (const_f32 selu_alpha)))
          = Some (selu_gamma * (if 0 \<le> v then v else selu_alpha * (exp v - 1)))"
    using elu_value[of v selu_alpha] by (simp add: eval_op_def)
  then have v4: "activation_value (ActName ''selu'') v =
       Some (selu_gamma * (if 0 \<le> v then v else selu_alpha * (exp v - 1)))"
    unfolding activation_value_def
    by (simp add: convert_activation_def del: eval.simps)
  have v5: "activation_value (ActName ''relu6'') v = Some (min (max v 0) 6)"
    by (simp add: activation_value_def convert_activation_def eval_op_def)
  have v6: "activation_value (ActName ''softsign'') v = Some (v / (1 + \<bar>v\<bar>))"
    using nz by (simp add: activation_value_def convert_activation_def eval_op_def)
  have v7: "activation_value (ActName ''hard_sigmoid'') v = Some (min (max (0.2 * v + 0.5) 0) 1)"
    by (simp add: activation_value_def convert_activation_def eval_op_def)
  have v8: "activation_value (ActName ''hard_sigmoid'') 0 = Some 0.5"
    by (simp add: activation_value_def convert_activation_def eval_op_def)
  have v9: "activation_value (ActName ''relu6'') 10 = Some 6"
    by (simp add: activation_value_def convert_activation_def eval_op_def)
  have v10: "activation_value (ActName ''softsign'') 0 = Some 0"
    by (simp add: activation_value_def convert_activation_def eval_op_def)
  show ?thesis
    using s1 s2 s3 s4 s5 s6 s7 s8 v1 v2 v3 v4 v5 v6 v7 v8 v9 v10 by (intro conjI)
qed

text \<open>
  Claim C8: a ReLU layer whose \<open>max_value\<close> is \<open>None\<close> or zero lowers to a plain \<open>relu\<close>;
  the clipped form \<open>clip (x, 0, max_value)\<close> is produced exactly when \<open>max_value\<close> is a
  nonzero number.
\<close>

theorem relu_max_value:
  "convert_advanced_activation x (l\<lparr>kind := ''ReLU'', max_value := None\<rparr>) t = (Inr (op_relu x), t)
   \<and> convert_advanced_activation x (l\<lparr>kind := ''ReLU'', max_value := Some 0\<rparr>) t = (Inr (op_relu x), t)
   \<and> (m \<noteq> 0 \<longrightarrow>
        convert_advanced_activation x (l\<lparr>kind := ''ReLU'', max_value := Some m\<rparr>) t
          = (Inr (op_clip x 0 m), t))
   \<and> (convert_advanced_activation x (l\<lparr>kind := ''ReLU''\<rparr>) t = (Inr (op_clip x 0 m), t)
        \<longleftrightarrow> max_value l = Some m \<and> m \<noteq> 0)"
  by (auto simp add: convert_advanced_activation_def truthy_def ret_def split: option.splits)

theorem relu_max_value_witness:
  "(2::real) \<noteq> 0 \<and>
   convert_advanced_activation (const 1) (blank_layer\<lparr>kind := ''ReLU'', max_value := Some 2\<rparr>)
       new_table
     = (Inr (op_clip (const 1) 0 2), new_table)"
  using relu_max_value[of "const 1" blank_layer new_table 2] by simp

text \<open>
  Claim C10: given the identifier string \<open>linear\<close> the lowerer returns its input
  unchanged; given a layer object whose activation is \<open>linear\<close> it builds
  \<open>x * alpha + beta\<close>, with alpha 1 and beta 0 when the layer has no such attributes, and
  that expression is never the input itself.
\<close>

theorem linear_identity_or_affine:
  "convert_activation x (ActName ''linear'') = Inr x
   \<and> convert_activation x (ActLayer (l\<lparr>activation := ''linear''\<rparr>)) =
       Inr (op_add (op_multiply x (const_f32 (case alpha l of None \<Rightarrow> 1 | Some a \<Rightarrow> a)))
                   (const_f32 (case beta l of None \<Rightarrow> 0 | Some b \<Rightarrow> b)))
   \<and> convert_activation x (ActLayer (l\<lparr>activation := ''linear'', alpha := None, beta := None\<rparr>)) =
       Inr (op_add (op_multiply x (const_f32 1)) (const_f32 0))
   \<and> convert_activation x (ActLayer (l\<lparr>activation := ''linear''\<rparr>)) \<noteq> Inr x"
  by (simp add: convert_activation_def affine_not_identity)


section \<open>Properties of the symbol table\<close>

lemma digit_char_inj: "a < 10 \<Longrightarrow> b < 10 \<Longrightarrow> digit_char a = digit_char b \<Longrightarrow> a = b"
proof -
  assume a: "a < 10" and b: "b < 10" and e: "digit_char a = digit_char b"
  have d: "distinct ''0123456789''" by simp
  from a b have "a < length ''0123456789''" "b < length ''0123456789''" by simp_all
  with d e show "a = b" unfolding digit_char_def by (simp only: nth_eq_iff_index_eq)
qed

lemma str_nat_nonempty: "str_nat n \<noteq> []"
  by (subst str_nat.simps) simp

lemma str_nat_inj: "str_nat m = str_nat n \<Longrightarrow> m = n"
proof (induction m arbitrary: n rule: str_nat.induct)
  case (1 m)
  show ?case
  proof (cases "m < 10")
    case True
    then have m: "str_nat m = [digit_char m]" by (subst str_nat.simps) simp
    show ?thesis
    proof (cases "n < 10")
      case True
      then have "str_nat n = [digit_char n]" by (subst str_nat.simps) simp
      with m "1.prems" \<open>m < 10\<close> True show ?thesis by (simp add: digit_char_inj)
    next
      case False
      then have "str_nat n = str_nat (n div 10) @ [digit_char (n mod 10)]"
        by (subst str_nat.simps) simp
      with m "1.prems" have "str_nat (n div 10) = []" by simp
      then show ?thesis using str_nat_nonempty by blast
    qed
  next
    case False
    then have m: "str_nat m = str_nat (m div 10) @ [digit_char (m mod 10)]"
      by (subst str_nat.simps) simp
    show ?thesis
    proof (cases "n < 10")
      case True
      then have "str_nat n = [digit_char n]" by (subst str_nat.simps) simp
      with m "1.prems" have "str_nat (m div 10) = []" by simp
      then show ?thesis using str_nat_nonempty by blast
    next
      case nf: False
      then have n: "str_nat n = str_nat (n div 10) @ [digit_char (n mod 10)]"
        by (subst str_nat.simps) simp
      from m n "1.prems" have a: "str_nat (m div 10) = str_nat (n div 10)"
        and b: "digit_char (m mod 10) = digit_char (n mod 10)" by simp_all
      from "1.IH"[OF False a] have "m div 10 = n div 10" .
      moreover from b have "m mod 10 = n mod 10" by (simp add: digit_char_inj)
      ultimately show ?thesis by (metis div_mult_mod_eq)
    qed
  qed
qed

lemma param_name_inj: "inj param_name"
  by (rule injI) (simp add: param_name_def str_nat_inj)

lemma fresh_name_fresh: "fresh_name used \<notin> set used"
proof (cases "find (\<lambda>k. param_name k \<notin> set used) [1 ..< length used + 2]")
  case (Some k)
  then have "param_name k \<notin> set used" by (auto simp: find_Some_iff)
  with Some show ?thesis by (simp add: fresh_name_def)
next
  case None
  then have "\<not> (\<exists>k. k \<in> set [1 ..< length used + 2] \<and> param_name k \<notin> set used)"
    by (simp add: find_None_iff del: set_upt)
  then have all: "\<forall>k \<in> {1 ..< length used + 2}. param_name k \<in> set used"
    unfolding set_upt by blast
  then have "param_name ` {1 ..< length used + 2} \<subseteq> set used" by blast
  then have "card (param_name ` {1 ..< length used + 2}) \<le> card (set used)"
    by (simp add: card_mono)
  moreover have "card (param_name ` {1 ..< length used + 2}) = length used + 1"
    using param_name_inj by (simp add: card_image inj_on_def inj_def)
  moreover have "card (set used) \<le> length used" by (rule card_length)
  ultimately show ?thesis by simp
qed


lemma new_const_result:
  "new_const a t = (Inr (Var (fresh_name (names_of t)) (Some (shape a)) ''float32''),
                    t\<lparr>params := params t @ [(fresh_name (names_of t), a)]\<rparr>)"
  by (simp add: new_const_def Let_def)

lemma step_op_names:
  assumes "step_op (t, rs) x = (t', rs')" and "set rs \<subseteq> set (names_of t)"
  shows "set rs' \<subseteq> set (names_of t')"
proof (cases x)
  case (OpSet n v)
  with assms show ?thesis
    by (auto simp: set_expr_def names_of_def split: if_splits)
next
  case (OpGet n)
  with assms show ?thesis
    by (auto simp: get_expr_def names_of_def split: option.splits)
next
  case (OpNewConst a)
  with assms show ?thesis
    by (auto simp: new_const_result names_of_def)
qed

lemma step_op_keys:
  assumes "step_op (t, rs) x = (t', rs')"
  shows "fst ` set (exprs t') \<subseteq> fst ` set (exprs t) \<union> {n. \<exists>v. x = OpSet n v}"
proof (cases x)
  case (OpSet n v)
  with assms show ?thesis
    by (auto simp: set_expr_def split: if_splits)
next
  case (OpGet n)
  with assms show ?thesis
    by (auto simp: get_expr_def split: option.splits)
next
  case (OpNewConst a)
  with assms show ?thesis
    by (auto simp: new_const_result)
qed

lemma foldl_step_op_inv:
  assumes "foldl step_op (t0, rs0) ops = (t, rs)" and "set rs0 \<subseteq> set (names_of t0)"
  shows "set rs \<subseteq> set (names_of t)
         \<and> fst ` set (exprs t) \<subseteq> fst ` set (exprs t0) \<union> {n. \<exists>v. OpSet n v \<in> set ops}"
  using assms
proof (induction ops arbitrary: t0 rs0)
  case Nil
  then show ?case by simp
next
  case (Cons x xs)
  obtain t1 rs1 where s: "step_op (t0, rs0) x = (t1, rs1)" by (cases "step_op (t0, rs0) x")
  from Cons.prems(1) s have f: "foldl step_op (t1, rs1) xs = (t, rs)" by simp
  have n1: "set rs1 \<subseteq> set (names_of t1)" by (rule step_op_names[OF s Cons.prems(2)])
  from Cons.IH[OF f n1]
  have a: "set rs \<subseteq> set (names_of t)"
    and b: "fst ` set (exprs t) \<subseteq> fst ` set (exprs t1) \<union> {n. \<exists>v. OpSet n v \<in> set xs}"
    by simp_all
  from step_op_keys[OF s] b
  have "fst ` set (exprs t) \<subseteq> fst ` set (exprs t0) \<union> {n. \<exists>v. OpSet n v \<in> set (x # xs)}"
    by (simp only: subset_iff Un_iff mem_Collect_eq set_simps insert_iff) blast
  with a show ?case by simp
qed

text \<open>
  Claim C4: in every table reached from the empty one by a history of operations,
  \<open>set\<close> on a name already present fails with DuplicateSymbol and leaves the table as it
  is; \<open>get\<close> on a name that no \<open>set\<close> of the history wrote fails with UnknownSymbol; and
  \<open>new_const\<close> returns a name that is neither among the names it returned before nor
  among the names stored in the table.
\<close>

theorem symbol_table_ops:
  assumes "run_ops ops = (t, returned)"
  shows "(\<forall>name v. name \<in> fst ` set (exprs t) \<longrightarrow>
            set_expr name v t = (Inl (DuplicateSymbol name), t))
         \<and> (\<forall>name. (\<forall>v. OpSet name v \<notin> set ops) \<longrightarrow>
              get_expr name t = (Inl (UnknownSymbol name), t))
         \<and> (\<forall>a. \<exists>n s d t'. new_const a t = (Inr (Var n s d), t')
                \<and> n \<notin> set returned \<and> n \<notin> set (names_of t))"
proof -
  from assms have f: "foldl step_op (new_table, []) ops = (t, returned)"
    by (simp add: run_ops_def)
  from foldl_step_op_inv[OF f]
  have r: "set returned \<subseteq> set (names_of t)"
    and k: "fst ` set (exprs t) \<subseteq> {n. \<exists>v. OpSet n v \<in> set ops}"
    by (simp_all add: new_table_def)
  have dup: "\<forall>name v. name \<in> fst ` set (exprs t) \<longrightarrow>
            set_expr name v t = (Inl (DuplicateSymbol name), t)"
    by (simp add: set_expr_def)
  have unk: "\<forall>name. (\<forall>v. OpSet name v \<notin> set ops) \<longrightarrow>
              get_expr name t = (Inl (UnknownSymbol name), t)"
  proof (intro allI impI)
    fix name assume "\<forall>v. OpSet name v \<notin> set ops"
    with k have "name \<notin> fst ` set (exprs t)" by blast
    then have "map_of (exprs t) name = None" by (simp add: map_of_eq_None_iff)
    then show "get_expr name t = (Inl (UnknownSymbol name), t)"
      by (simp add: get_expr_def)
  qed
  have fresh: "\<forall>a. \<exists>n s d t'. new_const a t = (Inr (Var n s d), t')
                \<and> n \<notin> set returned \<and> n \<notin> set (names_of t)"
  proof
    fix a
    have "fresh_name (names_of t) \<notin> set (names_of t)" by (rule fresh_name_fresh)
    with r have "fresh_name (names_of t) \<notin> set returned" by blast
    with \<open>fresh_name (names_of t) \<notin> set (names_of t)\<close> new_const_result[of a t]
    show "\<exists>n s d t'. new_const a t = (Inr (Var n s d), t')
                \<and> n \<notin> set returned \<and> n \<notin> set (names_of t)" by blast
  qed
  from dup unk fresh show ?thesis by (intro conjI)
qed

lemma run_example:
  "run_ops [OpSet ''a'' (const 1), OpNewConst (Zeros [1] ''float32'')] =
     (\<lparr>exprs = [(''a'', const 1)], params = [(''_param_1'', Zeros [1] ''float32'')]\<rparr>,
      [''_param_1''])"
  by (simp add: run_ops_def new_table_def set_expr_def new_const_def names_of_def
      fresh_name_def param_name_def digit_char_def Let_def)

theorem symbol_table_ops_witness:
  "run_ops [OpSet ''a'' (const 1), OpNewConst (Zeros [1] ''float32'')] =
     (\<lparr>exprs = [(''a'', const 1)], params = [(''_param_1'', Zeros [1] ''float32'')]\<rparr>,
      [''_param_1''])
   \<and> set_expr ''a'' (const 2)
        \<lparr>exprs = [(''a'', const 1)], params = [(''_param_1'', Zeros [1] ''float32'')]\<rparr>
      = (Inl (DuplicateSymbol ''a''),
         \<lparr>exprs = [(''a'', const 1)], params = [(''_param_1'', Zeros [1] ''float32'')]\<rparr>)
   \<and> get_expr ''b''
        \<lparr>exprs = [(''a'', const 1)], params = [(''_param_1'', Zeros [1] ''float32'')]\<rparr>
      = (Inl (UnknownSymbol ''b''),
         \<lparr>exprs = [(''a'', const 1)], params = [(''_param_1'', Zeros [1] ''float32'')]\<rparr>)"
  using symbol_table_ops[OF run_example] run_example by simp


section \<open>The eager check for unsupported layers\<close>

lemma check_unsupported_fails:
  assumes "l \<in> set ls" and "kind l \<notin> set (map fst convert_map)"
  shows "\<exists>k. check_unsupported_layers ls = Inl (ValueError (''Keras layer '' @ k @ '' not supported.''))
             \<and> k \<notin> set (map fst convert_map)"
proof (cases "find (\<lambda>l. kind l \<notin> set (map fst convert_map)) ls")
  case None
  with assms show ?thesis by (auto simp: find_None_iff)
next
  case (Some l')
  then have "kind l' \<notin> set (map fst convert_map)" by (auto simp: find_Some_iff)
  with Some show ?thesis by (simp add: check_unsupported_layers_def)
qed

text \<open>
  Claim C5: when some layer of the model has a kind outside the dispatch table,
  \<open>from_keras\<close> fails and no expression table has been created when it does, so no layer
  has been lowered and no symbol written; with the environment checks passed the failure
  is the ValueError of the eager check. The check is repeated at dispatch:
  \<open>keras_op_to_relay\<close> on such a layer raises NotImplementedError and leaves the table
  untouched.
\<close>

theorem unsupported_layer_fails_early:
  assumes "l \<in> set (layers model)" and "kind l \<notin> set (map fst convert_map)"
  shows "(\<exists>e. from_keras others env model shape_dict = (Inl e, None))
         \<and> (keras_installed env \<and> backend env = ''tensorflow''
              \<and> image_data_format env = ''channels_last'' \<longrightarrow>
              (\<exists>k. k \<notin> set (map fst convert_map) \<and>
                   from_keras others env model shape_dict =
                     (Inl (ValueError (''Keras layer '' @ k @ '' not supported.'')), None)))
         \<and> keras_op_to_relay others inexpr l outname t =
              (Inl (NotImplementedError (kind l @ '' is not supported'')), t)"
proof -
  from check_unsupported_fails[OF assms]
  obtain k where k: "check_unsupported_layers (layers model) =
      Inl (ValueError (''Keras layer '' @ k @ '' not supported.''))"
    and kn: "k \<notin> set (map fst convert_map)" by blast
  have a: "\<exists>e. from_keras others env model shape_dict = (Inl e, None)"
    using k by (simp add: from_keras_def)
  have b: "keras_installed env \<and> backend env = ''tensorflow''
              \<and> image_data_format env = ''channels_last'' \<longrightarrow>
              (\<exists>k. k \<notin> set (map fst convert_map) \<and>
                   from_keras others env model shape_dict =
                     (Inl (ValueError (''Keras layer '' @ k @ '' not supported.'')), None))"
    using k kn by (auto simp add: from_keras_def)
  from assms(2) have "map_of convert_map (kind l) = None"
    by (simp add: map_of_eq_None_iff)
  then have c: "keras_op_to_relay others inexpr l outname t =
              (Inl (NotImplementedError (kind l @ '' is not supported'')), t)"
    by (simp add: keras_op_to_relay_def raise_def)
  from a b c show ?thesis by (intro conjI)
qed

lemma lambda_unsupported: "''Lambda'' \<notin> set (map fst convert_map)"
  by (simp add: convert_map_def)

theorem unsupported_layer_fails_early_witness:
  "blank_layer\<lparr>kind := ''Lambda'', name := ''lambda_1''\<rparr>
     \<in> set [blank_layer\<lparr>kind := ''InputLayer'', name := ''input_1'', is_input_layer := True\<rparr>,
            blank_layer\<lparr>kind := ''Lambda'', name := ''lambda_1''\<rparr>]
   \<and> ''Lambda'' \<notin> set (map fst convert_map)
   \<and> from_keras (\<lambda>r i l. raise IndexError)
        \<lparr>keras_installed = True, backend = ''tensorflow'', image_data_format = ''channels_last''\<rparr>
        \<lparr>layers = [blank_layer\<lparr>kind := ''InputLayer'', name := ''input_1'', is_input_layer := True\<rparr>,
                   blank_layer\<lparr>kind := ''Lambda'', name := ''lambda_1''\<rparr>],
         network_nodes = [], output_coordinates = []\<rparr> []
      = (Inl (ValueError ''Keras layer Lambda not supported.''), None)"
proof -
  let ?l = "blank_layer\<lparr>kind := ''Lambda'', name := ''lambda_1''\<rparr>"
  let ?m = "\<lparr>layers = [blank_layer\<lparr>kind := ''InputLayer'', name := ''input_1'', is_input_layer := True\<rparr>, ?l],
         network_nodes = [], output_coordinates = []\<rparr>"
  have m: "?l \<in> set (layers ?m)" by simp
  have u: "kind ?l \<notin> set (map fst convert_map)" using lambda_unsupported by simp
  have "check_unsupported_layers (layers ?m) = Inl (ValueError ''Keras layer Lambda not supported.'')"
    by (simp add: check_unsupported_layers_def convert_map_def blank_layer_def)
  then have "from_keras (\<lambda>r i l. raise IndexError)
        \<lparr>keras_installed = True, backend = ''tensorflow'', image_data_format = ''channels_last''\<rparr>
        ?m [] = (Inl (ValueError ''Keras layer Lambda not supported.''), None)"
    using unsupported_layer_fails_early[OF m u, of "\<lambda>r i l. raise IndexError"
        "\<lparr>keras_installed = True, backend = ''tensorflow'', image_data_format = ''channels_last''\<rparr>" "[]"]
    by (simp add: from_keras_def)
  with m u show ?thesis by simp
qed


section \<open>Laws of the table monad\<close>

lemma bindE_lift_Inr [simp]: "bindE (lift (Inr x)) f = f x"
  by (simp add: bindE_def lift_def)

lemma bindE_lift_Inl [simp]: "bindE (lift (Inl e)) f t = (Inl e, t)"
  by (simp add: bindE_def lift_def)

lemma bindE_ret [simp]: "bindE (ret x) f = f x"
  by (simp add: bindE_def ret_def)

lemma bindE_raise [simp]: "bindE (raise e) f t = (Inl e, t)"
  by (simp add: bindE_def raise_def)

lemma new_const_eq: "new_const a t = (Inr (const_ref t a), with_const t a)"
  by (simp add: new_const_def const_ref_def with_const_def Let_def)

lemma bindE_new_const': "bindE (new_const a) f t = f (const_ref t a) (with_const t a)"
  by (simp add: bindE_def new_const_eq)

lemma bindE_assoc: "bindE (bindE m f) g = bindE m (\<lambda>x. bindE (f x) g)"
  by (rule ext) (simp add: bindE_def split: prod.splits sum.splits)

lemma bindE_new_const:
  "bindE (new_const a) f t =
     f (Var (fresh_name (names_of t)) (Some (shape a)) ''float32'')
       (t\<lparr>params := params t @ [(fresh_name (names_of t), a)]\<rparr>)"
  by (simp add: bindE_def new_const_def Let_def)


section \<open>Properties of the convolution lowering\<close>

lemma np_transpose_4:
  "length (shape w) = 4 \<Longrightarrow> np_transpose w [3, 2, 0, Suc 0] = Inr (Transposed w [3, 2, 0, Suc 0])"
  "length (shape w) = 4 \<Longrightarrow> np_transpose w [2, 3, 0, Suc 0] = Inr (Transposed w [2, 3, 0, Suc 0])"
  by (simp_all add: np_transpose_def upt_rec)

lemma unpack4_4 [simp]: "unpack4 [a, b, c, d] = Inr (a, b, c, d)"
  by (simp add: unpack4_def)

lemma lift_apply: "lift r t = (r, t)"
  by (simp add: lift_def)

lemma conv_finish_eq:
  assumes "use_bias l \<longrightarrow> ws \<noteq> []" and "get_weights l = w0 # ws"
  shows "conv_finish l out t1 =
     (let out' = (if use_bias l then op_bias_add out (const_ref t1 (hd ws)) else out);
          t2 = (if use_bias l then with_const t1 (hd ws) else t1)
      in (if activation l = ''linear'' then Inr out'
          else convert_activation out' (ActName (activation l)), t2))"
proof (cases "use_bias l")
  case True
  with assms(1) obtain w1 ws' where ws: "ws = w1 # ws'" by (cases ws) auto
  show ?thesis
    using True
    by (simp add: conv_finish_def assms(2) ws py_index_def bindE_def lift_def ret_def
        new_const_eq defuse_activation_def Let_def)
next
  case False
  then show ?thesis
    by (simp add: conv_finish_def defuse_activation_def lift_apply Let_def)
qed

lemma same_pads_dims:
  assumes "3 \<le> length dims" "dims ! 1 = Some in_h" "dims ! 2 = Some in_w"
    "get_pad_pair (int in_h) kernel_h stride_h = Inr (pad_t, pad_b)"
    "get_pad_pair (int in_w) kernel_w stride_w = Inr (pad_l, pad_r)"
  shows "same_pads (Shape dims) kernel_h kernel_w stride_h stride_w
           = Inr ((pad_t, pad_b), (pad_l, pad_r))"
  using assms by (simp add: same_pads_def pad_pair_of_dim_def bindS_def Let_def)

lemma convolution_padding_wf:
  assumes df: "data_format l = None \<or> data_format l = Some ''channels_last''"
    and w: "get_weights l = w0 # ws"
    and sh: "shape w0 = [kh, kw, c2, c3]"
    and dil: "(dilation_rate l = Rate dh \<and> dw = dh)
              \<or> (\<exists>ds. dilation_rate l = Rates (dh # dw # ds))"
    and st: "strides l = (sh, sw)"
    and bias: "use_bias l \<longrightarrow> ws \<noteq> []"
  shows
    "(padding l = ''valid'' \<longrightarrow>
        convert_convolution x l t =
          conv_lowered l w0 ws t (conv_node l w0 kh kw c2 c3 dh dw sh sw t x [0, 0]))
     \<and> (padding l = ''same'' \<and> input_shape l = Shape dims \<and> 3 \<le> length dims
          \<and> dims ! 1 = Some in_h \<and> dims ! 2 = Some in_w
          \<and> get_pad_pair (int in_h) ((int kh - 1) * dh + 1) sh = Inr (pad_t, pad_b)
          \<and> get_pad_pair (int in_w) ((int kw - 1) * dw + 1) sw = Inr (pad_l, pad_r) \<longrightarrow>
        convert_convolution x l t =
          (if pad_t = pad_b \<and> pad_l = pad_r
           then conv_lowered l w0 ws t
                  (conv_node l w0 kh kw c2 c3 dh dw sh sw t x [pad_t, pad_l])
           else conv_lowered l w0 ws t
                  (conv_node l w0 kh kw c2 c3 dh dw sh sw t
                     (op_pad x [(0, 0), (0, 0), (pad_t, pad_b), (pad_l, pad_r)]) [0, 0])))
     \<and> (padding l \<noteq> ''valid'' \<and> padding l \<noteq> ''same'' \<longrightarrow>
          convert_convolution x l t =
            (Inl (TypeError (''Unsupported padding type : '' @ padding l)),
             with_const t (Transposed w0 (if kind l = ''DepthwiseConv2D'' then [2, 3, 0, 1]
                                          else [3, 2, 0, 1]))))"
proof -
  have l4: "length (shape w0) = 4" using sh by simp
  have i0: "py_index (w0 # ws) 0 = Inr w0" by (simp add: py_index_def)
  have cdf: "check_data_format l = Inr ()" using df by (auto simp: check_data_format_def)
  have d: "dilation_of (dilation_rate l) = Inr (dh, dw)"
    using dil by (auto simp: dilation_of_def)
  note fin = conv_finish_eq[OF bias w]
  note pre = convert_convolution_def cdf w sh d st i0 np_transpose_4[OF l4] Let_def
    bindE_new_const' fin conv_lowered_def conv_node_def
  have valid: "padding l = ''valid'' \<longrightarrow>
        convert_convolution x l t =
          conv_lowered l w0 ws t (conv_node l w0 kh kw c2 c3 dh dw sh sw t x [0, 0])"
    by (simp add: pre)
  have same: "padding l = ''same'' \<and> input_shape l = Shape dims \<and> 3 \<le> length dims
          \<and> dims ! 1 = Some in_h \<and> dims ! 2 = Some in_w
          \<and> get_pad_pair (int in_h) ((int kh - 1) * dh + 1) sh = Inr (pad_t, pad_b)
          \<and> get_pad_pair (int in_w) ((int kw - 1) * dw + 1) sw = Inr (pad_l, pad_r) \<longrightarrow>
        convert_convolution x l t =
          (if pad_t = pad_b \<and> pad_l = pad_r
           then conv_lowered l w0 ws t
                  (conv_node l w0 kh kw c2 c3 dh dw sh sw t x [pad_t, pad_l])
           else conv_lowered l w0 ws t
                  (conv_node l w0 kh kw c2 c3 dh dw sh sw t
                     (op_pad x [(0, 0), (0, 0), (pad_t, pad_b), (pad_l, pad_r)]) [0, 0]))"
  proof (intro impI, elim conjE)
    assume p: "padding l = ''same''" and ish: "input_shape l = Shape dims"
      and a: "3 \<le> length dims" "dims ! 1 = Some in_h" "dims ! 2 = Some in_w"
        "get_pad_pair (int in_h) ((int kh - 1) * dh + 1) sh = Inr (pad_t, pad_b)"
        "get_pad_pair (int in_w) ((int kw - 1) * dw + 1) sw = Inr (pad_l, pad_r)"
    note sp = same_pads_dims[OF a]
    show "convert_convolution x l t =
          (if pad_t = pad_b \<and> pad_l = pad_r
           then conv_lowered l w0 ws t
                  (conv_node l w0 kh kw c2 c3 dh dw sh sw t x [pad_t, pad_l])
           else conv_lowered l w0 ws t
                  (conv_node l w0 kh kw c2 c3 dh dw sh sw t
                     (op_pad x [(0, 0), (0, 0), (pad_t, pad_b), (pad_l, pad_r)]) [0, 0]))"
      by (simp add: pre p ish sp)
  qed
  have other: "padding l \<noteq> ''valid'' \<and> padding l \<noteq> ''same'' \<longrightarrow>
          convert_convolution x l t =
            (Inl (TypeError (''Unsupported padding type : '' @ padding l)),
             with_const t (Transposed w0 (if kind l = ''DepthwiseConv2D'' then [2, 3, 0, 1]
                                          else [3, 2, 0, 1])))"
    by (simp add: pre)
  from valid same other show ?thesis by (intro conjI)
qed


lemma convolution_other_padding_fails:
  assumes "padding l \<noteq> ''valid''" and "padding l \<noteq> ''same''"
  shows "\<exists>e. fst (convert_convolution x l t) = Inl e"
  using assms
  by (auto simp: convert_convolution_def bindE_def lift_def raise_def new_const_def Let_def
      split: sum.splits prod.splits)

text \<open>
  Claim C3: for a Conv2D, Conv2DTranspose or DepthwiseConv2D layer (channels-last, a
  four-dimensional kernel, dilation rate \<open>(dh, dw)\<close> given as a number or a sequence, a
  bias array when the layer uses a bias) the rule returns exactly the convolution node of
  the spec followed by the bias and the fused activation: with \<open>valid\<close> padding the node
  is applied to the input itself with padding parameter \<open>(0, 0)\<close>; with \<open>same\<close> padding the
  pads are those of the padding calculator on the dilated kernel size
  \<open>(kernel - 1) * dilation + 1\<close>, passed as the padding parameter \<open>(pad_t, pad_l)\<close> when
  \<open>pad_t = pad_b\<close> and \<open>pad_l = pad_r\<close>, and otherwise applied by an explicit pad operation in
  front of a node that keeps padding \<open>(0, 0)\<close>; any other padding mode raises the TypeError
  of the rule once the kernel is registered, and some exception for every layer.
\<close>

theorem convolution_padding:
  "((data_format l = None \<or> data_format l = Some ''channels_last'')
      \<and> get_weights l = w0 # ws \<and> shape w0 = [kh, kw, c2, c3]
      \<and> ((dilation_rate l = Rate dh \<and> dw = dh) \<or> (\<exists>ds. dilation_rate l = Rates (dh # dw # ds)))
      \<and> strides l = (sh, sw) \<and> (use_bias l \<longrightarrow> ws \<noteq> []) \<longrightarrow>
     (padding l = ''valid'' \<longrightarrow>
        convert_convolution x l t =
          conv_lowered l w0 ws t (conv_node l w0 kh kw c2 c3 dh dw sh sw t x [0, 0]))
     \<and> (padding l = ''same'' \<and> input_shape l = Shape dims \<and> 3 \<le> length dims
          \<and> dims ! 1 = Some in_h \<and> dims ! 2 = Some in_w
          \<and> get_pad_pair (int in_h) ((int kh - 1) * dh + 1) sh = Inr (pad_t, pad_b)
          \<and> get_pad_pair (int in_w) ((int kw - 1) * dw + 1) sw = Inr (pad_l, pad_r) \<longrightarrow>
        convert_convolution x l t =
          (if pad_t = pad_b \<and> pad_l = pad_r
           then conv_lowered l w0 ws t
                  (conv_node l w0 kh kw c2 c3 dh dw sh sw t x [pad_t, pad_l])
           else conv_lowered l w0 ws t
                  (conv_node l w0 kh kw c2 c3 dh dw sh sw t
                     (op_pad x [(0, 0), (0, 0), (pad_t, pad_b), (pad_l, pad_r)]) [0, 0])))
     \<and> (padding l \<noteq> ''valid'' \<and> padding l \<noteq> ''same'' \<longrightarrow>
          convert_convolution x l t =
            (Inl (TypeError (''Unsupported padding type : '' @ padding l)),
             with_const t (Transposed w0 (if kind l = ''DepthwiseConv2D'' then [2, 3, 0, 1]
                                          else [3, 2, 0, 1])))))
   \<and> (padding l \<noteq> ''valid'' \<and> padding l \<noteq> ''same'' \<longrightarrow>
        (\<exists>e. fst (convert_convolution x l t) = Inl e))"
  using convolution_padding_wf[of l w0 ws kh kw c2 c3 dh dw sh sw x t dims in_h in_w
      pad_t pad_b pad_l pad_r]
    convolution_other_padding_fails[of l x t]
  by blast

theorem convolution_padding_witness:
  "data_format conv_example = None
   \<and> get_weights conv_example = [Weights [3, 3, 1, 4] [], Weights [4] []]
   \<and> shape (Weights [3, 3, 1, 4] []) = [3, 3, 1, 4]
   \<and> dilation_rate conv_example = Rates [2, 3]
   \<and> strides conv_example = (2, 2)
   \<and> use_bias conv_example
   \<and> padding conv_example = ''same''
   \<and> input_shape conv_example = Shape [None, Some 8, Some 7, Some 1]
   \<and> get_pad_pair (int 8) ((int 3 - 1) * 2 + 1) 2 = Inr (1, 2)
   \<and> get_pad_pair (int 7) ((int 3 - 1) * 3 + 1) 2 = Inr (3, 3)
   \<and> convert_convolution (const 1) conv_example new_table =
       (Inr (op_relu (op_bias_add
               (Call Conv2d
                  [op_pad (const 1) [(0, 0), (0, 0), (1, 2), (3, 3)],
                   Var ''_param_1'' (Some [4, 1, 3, 3]) ''float32'']
                  [(''kernel_size'', AInts [3, 3]), (''strides'', AInts [2, 2]),
                   (''dilation'', AInts [2, 3]), (''padding'', AInts [0, 0]),
                   (''channels'', AInt 4)])
               (Var ''_param_2'' (Some [4]) ''float32''))),
        \<lparr>exprs = [],
           params = [(''_param_1'', Transposed (Weights [3, 3, 1, 4] []) [3, 2, 0, 1]),
                     (''_param_2'', Weights [4] [])]\<rparr>)"
proof -
  have h: "data_format conv_example = None"
    "get_weights conv_example = [Weights [3, 3, 1, 4] [], Weights [4] []]"
    "shape (Weights [3, 3, 1, 4] []) = [3, 3, 1, 4]"
    "dilation_rate conv_example = Rates [2, 3]"
    "strides conv_example = (2, 2)"
    "use_bias conv_example"
    "padding conv_example = ''same''"
    "input_shape conv_example = Shape [None, Some 8, Some 7, Some 1]"
    "kind conv_example = ''Conv2D''"
    "activation conv_example = ''relu''"
    by (simp_all add: conv_example_def blank_layer_def)
  have p: "get_pad_pair (int 8) ((int 3 - 1) * 2 + 1) 2 = Inr (1, 2)"
    "get_pad_pair (int 7) ((int 3 - 1) * 3 + 1) 2 = Inr (3, 3)"
    by (simp_all add: get_pad_pair_def np_maximum_def fits_int64_def bindS_def)
  have n1: "fresh_name [] = ''_param_1''"
    by (simp add: fresh_name_def param_name_def digit_char_def)
  have n2: "fresh_name [''_param_1''] = ''_param_2''"
    by (simp add: fresh_name_def param_name_def digit_char_def upt_rec)
  have r: "convert_convolution (const 1) conv_example new_table =
          conv_lowered conv_example (Weights [3, 3, 1, 4] []) [Weights [4] []] new_table
            (conv_node conv_example (Weights [3, 3, 1, 4] []) 3 3 1 4 2 3 2 2 new_table
               (op_pad (const 1) [(0, 0), (0, 0), (1, 2), (3, 3)]) [0, 0])"
    using convolution_padding[of conv_example "Weights [3, 3, 1, 4] []" "[Weights [4] []]"
        3 3 1 4 2 3 2 2 "const 1" new_table "[None, Some 8, Some 7, Some 1]" 8 7 1 2 3 3] h p
    by simp
  have e: "conv_lowered conv_example (Weights [3, 3, 1, 4] []) [Weights [4] []] new_table
            (conv_node conv_example (Weights [3, 3, 1, 4] []) 3 3 1 4 2 3 2 2 new_table
               (op_pad (const 1) [(0, 0), (0, 0), (1, 2), (3, 3)]) [0, 0]) =
       (Inr (op_relu (op_bias_add
               (Call Conv2d
                  [op_pad (const 1) [(0, 0), (0, 0), (1, 2), (3, 3)],
                   Var ''_param_1'' (Some [4, 1, 3, 3]) ''float32'']
                  [(''kernel_size'', AInts [3, 3]), (''strides'', AInts [2, 2]),
                   (''dilation'', AInts [2, 3]), (''padding'', AInts [0, 0]),
                   (''channels'', AInt 4)])
               (Var ''_param_2'' (Some [4]) ''float32''))),
        \<lparr>exprs = [],
           params = [(''_param_1'', Transposed (Weights [3, 3, 1, 4] []) [3, 2, 0, 1]),
                     (''_param_2'', Weights [4] [])]\<rparr>)"
    by (simp add: conv_lowered_def conv_node_def h const_ref_def with_const_def new_table_def
        names_of_def n1 n2 convert_activation_def Let_def)
  from h p r e show ?thesis by simp
qed


section \<open>Properties of the LSTM lowering\<close>
lemma lstm_step_spec:
  assumes rec: "\<And>e. convert_activation e (ActName (recurrent_activation l)) = Inr (rec_act e)"
    and act: "\<And>e. convert_activation e (ActLayer l) = Inr (act e)"
  shows "lstm_step l kw rw b n data hc = Inr (lstm_cell_spec rec_act act kw rw b n hc data)"
  by (cases hc)
    (simp add: lstm_step_def lstm_cell_spec_def bindS_def tw_item_def op_split_sections_def
      convert_recurrent_activation_def rec act Let_def)

lemma lstm_loop_spec:
  assumes rec: "\<And>e. convert_activation e (ActName (recurrent_activation l)) = Inr (rec_act e)"
    and act: "\<And>e. convert_activation e (ActLayer l) = Inr (act e)"
  shows "lstm_loop l kw rw b n xs hc = Inr (foldl (lstm_cell_spec rec_act act kw rw b n) hc xs)"
proof (induction xs arbitrary: hc)
  case Nil
  show ?case by simp
next
  case (Cons x xs)
  show ?case by (simp add: lstm_step_spec[OF rec act] Cons.IH)
qed

lemma tw_items_split: "tw_items (op_split_sections (op_squeeze x [0]) T 0) = time_slices x T"
  by (simp add: tw_items_def op_split_sections_def time_slices_def)

lemma np_transpose_2:
  "length (shape w) = 2 \<Longrightarrow> np_transpose w [Suc 0, 0] = Inr (Transposed w [Suc 0, 0])"
  by (simp add: np_transpose_def upt_rec)

lemma recurrent_weights_ok:
  assumes "get_weights l = w0 # w1 # w2 # ws" "length (shape w0) = 2" "length (shape w1) = 2"
  shows "recurrent_weights l t =
    (let a0 = Transposed w0 [1, 0]; a1 = Transposed w1 [1, 0];
         t1 = with_const t a0; t2 = with_const t1 a1
     in (Inr (const_ref t a0, const_ref t1 a1, const_ref t2 w2, shape w0 ! 1), with_const t2 w2))"
  using assms
  by (simp add: recurrent_weights_def py_index_def np_transpose_2 bindE_new_const' Let_def ret_def)


lemma first_shape_time_steps:
  assumes "0 < T"
  shows "bindS (first_shape (Shape [b, Some T, d])) (\<lambda>s. py_index s 1) = Inr T"
  using assms by (cases b; cases d) (simp_all add: first_shape_def bindS_def py_index_def)

lemma first_shape_Inr:
  "\<exists>s. first_shape (Shape [b, Some T, d]) = Inr s \<and> py_index s 1 = Inr (if T = 0 then 1 else T)"
  by (simp add: first_shape_def py_index_def)

lemma convert_lstm_many:
  assumes df: "check_data_format l = Inr ()"
    and ishape: "input_shape l = Shape [b, Some T, d]"
    and T: "0 < T"
    and w: "get_weights l = w0 # w1 # w2 # ws"
    and w0: "length (shape w0) = 2"
    and w1: "length (shape w1) = 2"
    and oshape: "first_shape (output_shape l) = Inr out_shape"
    and rec: "\<And>e. convert_activation e (ActName (recurrent_activation l)) = Inr (rec_act e)"
    and act: "\<And>e. convert_activation e (ActLayer l) = Inr (act e)"
    and R: "R = foldl (lstm_cell_spec rec_act act
                        (const_ref t (Transposed w0 [1, 0]))
                        (const_ref (with_const t (Transposed w0 [1, 0])) (Transposed w1 [1, 0]))
                        (const_ref (with_const (with_const t (Transposed w0 [1, 0]))
                                      (Transposed w1 [1, 0])) w2)
                        (shape w0 ! 1))
                  (h0, c0) (time_slices x T)"
  shows "convert_lstm (Many (x # h0 # c0 # rest)) l t =
           (Inr (Many [op_reshape (fst R) (map int out_shape), fst R, snd R]),
            with_const (with_const (with_const t (Transposed w0 [1, 0])) (Transposed w1 [1, 0])) w2)"
proof -
  obtain s where s: "first_shape (Shape [b, Some T, d]) = Inr s" and s1: "py_index s 1 = Inr T"
    using first_shape_Inr[of b T d] T by auto
  have s1': "py_index s (Suc 0) = Inr T" using s1 by simp
  have i: "py_index (x # h0 # c0 # rest) 0 = Inr x"
    "py_index (x # h0 # c0 # rest) (Suc 0) = Inr h0"
    "py_index (x # h0 # c0 # rest) 2 = Inr c0"
    by (simp_all add: py_index_def)
  have fin: "\<And>v u. ret v u = (Inr v, u)" by (simp add: ret_def)
  show ?thesis
    unfolding convert_lstm_def
    by (simp add: df ishape s s1' oshape i
        recurrent_weights_ok[OF w w0 w1, unfolded Let_def]
        bindE_def[of "recurrent_weights l"]
        lstm_loop_spec[OF rec act] tw_items_split R split_beta fin)
qed

lemma convert_lstm_single:
  "convert_lstm (Single x) l t =
     (case check_data_format l of
        Inl e \<Rightarrow> (Inl e, t)
      | Inr _ \<Rightarrow>
          convert_lstm (Many [x, const_ref (with_const t (Zeros [1, units l] ''float32''))
                                   (Zeros [1, units l] ''float32''),
                              const_ref t (Zeros [1, units l] ''float32'')]) l
            (with_const (with_const t (Zeros [1, units l] ''float32''))
               (Zeros [1, units l] ''float32'')))"
  unfolding convert_lstm_def
  by (cases "check_data_format l") (simp_all add: bindE_assoc bindE_new_const' Let_def)

text \<open>
  Claim C2: an LSTM layer lowered from a bare input with declared input shape
  \<open>(b, T, n)\<close>, \<open>T\<close> positive, splits the squeezed input into exactly \<open>T\<close> slices along
  the time axis and folds the cell of the spec over them, starting from the two zero
  states registered as constants: each step computes
  \<open>dense (x_t, kernel) + bias_add (dense (h, recurrent_kernel), bias)\<close>, splits it into four
  chunks in the order input, forget, cell candidate, output, applies the recurrent
  activation to the input, forget and output gates and the main activation to the
  candidate, and sets \<open>c = forget * c + input * candidate\<close>, \<open>h = output * act c\<close>. The
  result is the triple of \<open>h\<close> reshaped to the declared output shape, \<open>h\<close> and \<open>c\<close>.
\<close>

theorem lstm_unrolling:
  assumes df: "check_data_format l = Inr ()"
    and ishape: "input_shape l = Shape [b, Some T, d]"
    and T: "0 < T"
    and w: "get_weights l = w0 # w1 # w2 # ws"
    and w0: "length (shape w0) = 2"
    and w1: "length (shape w1) = 2"
    and oshape: "first_shape (output_shape l) = Inr out_shape"
    and rec: "\<And>e. convert_activation e (ActName (recurrent_activation l)) = Inr (rec_act e)"
    and act: "\<And>e. convert_activation e (ActLayer l) = Inr (act e)"
  shows
    "(let zeros = Zeros [1, units l] ''float32'';
          t1 = with_const t zeros;
          t2 = with_const t1 zeros;
          t3 = with_const t2 (Transposed w0 [1, 0]);
          t4 = with_const t3 (Transposed w1 [1, 0]);
          c0 = const_ref t zeros;
          h0 = const_ref t1 zeros;
          kernel_weight = const_ref t2 (Transposed w0 [1, 0]);
          recurrent_weight = const_ref t3 (Transposed w1 [1, 0]);
          bias = const_ref t4 w2;
          hc = foldl (lstm_cell_spec rec_act act kernel_weight recurrent_weight bias
                        (shape w0 ! 1))
                     (h0, c0) (time_slices x T)
      in convert_lstm (Single x) l t =
           (Inr (Many [op_reshape (fst hc) (map int out_shape), fst hc, snd hc]),
            with_const t4 w2))
     \<and> length (time_slices x T) = T"
proof -
  have len: "length (time_slices x T) = T" by (simp add: time_slices_def)
  show ?thesis
    unfolding Let_def
    by (simp only: convert_lstm_single df sum.case len
        convert_lstm_many[OF df ishape T w w0 w1 oshape rec act refl] simp_thms)
qed


theorem lstm_unrolling_witness:
  "check_data_format lstm_example = Inr ()
   \<and> input_shape lstm_example = Shape [Some 1, Some 2, Some 3]
   \<and> (0::nat) < 2
   \<and> get_weights lstm_example = [Weights [3, 8] [], Weights [2, 8] [], Weights [8] []]
   \<and> length (shape (Weights [3, 8] [])) = 2
   \<and> length (shape (Weights [2, 8] [])) = 2
   \<and> first_shape (output_shape lstm_example) = Inr [1, 2]
   \<and> (\<forall>e. convert_activation e (ActName (recurrent_activation lstm_example)) = Inr (op_sigmoid e))
   \<and> (\<forall>e. convert_activation e (ActLayer lstm_example) = Inr (op_tanh e))
   \<and> (let zeros = Zeros [1, units lstm_example] ''float32'';
          t1 = with_const new_table zeros;
          t2 = with_const t1 zeros;
          t3 = with_const t2 (Transposed (Weights [3, 8] []) [1, 0]);
          t4 = with_const t3 (Transposed (Weights [2, 8] []) [1, 0]);
          c0 = const_ref new_table zeros;
          h0 = const_ref t1 zeros;
          kernel_weight = const_ref t2 (Transposed (Weights [3, 8] []) [1, 0]);
          recurrent_weight = const_ref t3 (Transposed (Weights [2, 8] []) [1, 0]);
          bias = const_ref t4 (Weights [8] []);
          hc = foldl (lstm_cell_spec (\<lambda>e. op_sigmoid e) (\<lambda>e. op_tanh e)
                        kernel_weight recurrent_weight bias
                        (shape (Weights [3, 8] []) ! 1))
                     (h0, c0) (time_slices (const 1) 2)
      in convert_lstm (Single (const 1)) lstm_example new_table =
           (Inr (Many [op_reshape (fst hc) (map int [1, 2]), fst hc, snd hc]),
            with_const t4 (Weights [8] [])))
   \<and> length (time_slices (const 1) 2) = 2"
proof -
  have h1: "check_data_format lstm_example = Inr ()"
    by (simp add: lstm_example_def blank_layer_def check_data_format_def)
  have h2: "input_shape lstm_example = Shape [Some 1, Some 2, Some 3]"
    by (simp add: lstm_example_def blank_layer_def)
  have h3: "(0::nat) < 2" by simp
  have h4: "get_weights lstm_example = [Weights [3, 8] [], Weights [2, 8] [], Weights [8] []]"
    by (simp add: lstm_example_def blank_layer_def)
  have h5: "length (shape (Weights [3, 8] [])) = 2" by simp
  have h6: "length (shape (Weights [2, 8] [])) = 2" by simp
  have h7: "first_shape (output_shape lstm_example) = Inr [1, 2]"
    by (simp add: lstm_example_def blank_layer_def first_shape_def)
  have h8: "\<And>e. convert_activation e (ActName (recurrent_activation lstm_example)) = Inr (op_sigmoid e)"
    by (simp add: lstm_example_def blank_layer_def convert_activation_def)
  have h9: "\<And>e. convert_activation e (ActLayer lstm_example) = Inr (op_tanh e)"
    by (simp add: lstm_example_def blank_layer_def convert_activation_def)
  note th = lstm_unrolling[OF h1 h2 h3 h4 h5 h6 h7 h8 h9, of new_table "const 1"]
  from h1 h2 h3 h4 h5 h6 h7 h8 h9 th show ?thesis by blast
qed


section \<open>Constants registered by the recurrent rules\<close>

text \<open>The constant registry only grows.\<close>

lemma grows_ret [intro!, simp]: "grows (ret x)"
  by (simp add: grows_def ret_def)

lemma grows_raise [intro!, simp]: "grows (raise e)"
  by (simp add: grows_def raise_def)

lemma grows_lift [intro!, simp]: "grows (lift r)"
  by (simp add: grows_def lift_def)

lemma grows_new_const [intro!, simp]: "grows (new_const a)"
  by (simp add: grows_def new_const_def Let_def)



lemma grows_bindE [intro!]:
  assumes "grows m" and "\<And>x. grows (f x)"
  shows "grows (bindE m f)"
  unfolding grows_def
proof
  fix t
  obtain r t1 where mt: "m t = (r, t1)" by (cases "m t")
  from assms(1) mt obtain ps where p1: "params t1 = params t @ ps"
    by (auto simp: grows_def dest: spec[of _ t])
  show "\<exists>ps. params (snd (bindE m f t)) = params t @ ps"
  proof (cases r)
    case (Inl e)
    with mt p1 show ?thesis by (simp add: bindE_def)
  next
    case (Inr x)
    from assms(2)[of x] obtain qs where "params (snd (f x t1)) = params t1 @ qs"
      by (auto simp: grows_def dest: spec[of _ t1])
    with p1 mt Inr show ?thesis by (simp add: bindE_def)
  qed
qed

lemma grows_if [intro!]: "grows a \<Longrightarrow> grows b \<Longrightarrow> grows (if c then a else b)"
  by simp

lemma grows_case_prod [intro!]: "(\<And>a b. grows (f a b)) \<Longrightarrow> grows (case_prod f p)"
  by (cases p) simp

lemma grows_case_option [intro!]:
  "grows a \<Longrightarrow> (\<And>x. grows (f x)) \<Longrightarrow> grows (case_option a f v)"
  by (cases v) simp_all

lemma grows_case_exprs_arg [intro!]:
  "(\<And>x. grows (f x)) \<Longrightarrow> (\<And>x. grows (g x)) \<Longrightarrow> grows (case_exprs_arg f g v)"
  by (cases v) simp_all

lemma grows_Let [intro!]: "grows (f v) \<Longrightarrow> grows (Let v f)"
  by simp

lemma grows_recurrent_weights [intro!, simp]: "grows (recurrent_weights l)"
  unfolding recurrent_weights_def by (intro grows_Let grows_bindE grows_lift grows_new_const grows_ret)

lemma grows_convert_lstm [intro!, simp]: "grows (convert_lstm i l)"
  unfolding convert_lstm_def by (auto simp only: intro!: grows_recurrent_weights)



lemma lift_InrD: "lift r t = (Inr x, t1) \<Longrightarrow> r = Inr x \<and> t1 = t"
  by (simp add: lift_def)










lemma with_const_simps [simp]:
  "params (with_const t a) = params t @ [(fresh_name (names_of t), a)]"
  "exprs (with_const t a) = exprs t"
  "set (names_of (with_const t a)) = insert (fresh_name (names_of t)) (set (names_of t))"
  by (auto simp: with_const_def names_of_def)









section \<open>The graph walk only grows the constant registry\<close>


lemma grows_case_sum [intro!]:
  "(\<And>x. grows (f x)) \<Longrightarrow> (\<And>x. grows (g x)) \<Longrightarrow> grows (case_sum f g v)"
  by (cases v) simp_all

lemma grows_convert_simple_rnn [intro!, simp]: "grows (convert_simple_rnn i l)"
  unfolding convert_simple_rnn_def by (auto simp only: intro!: grows_recurrent_weights)

lemma grows_convert_gru [intro!, simp]: "grows (convert_gru i l)"
  unfolding convert_gru_def by (auto simp only: intro!: grows_recurrent_weights)

lemma grows_convert_advanced_activation [intro!, simp]: "grows (convert_advanced_activation e l)"
  unfolding convert_advanced_activation_def by (auto simp only: )

lemma grows_conv_finish [intro!, simp]: "grows (conv_finish l out)"
  unfolding conv_finish_def by (auto simp only: )

lemma grows_convert_convolution [intro!, simp]: "grows (convert_convolution e l)"
  unfolding convert_convolution_def by (auto simp only: intro!: grows_conv_finish)

lemma grows_default_skip [intro!, simp]: "grows (default_skip i l)"
  by (simp add: default_skip_def)










section \<open>Call-sites reached by a successful walk\<close>








section \<open>Constants returned by a successful conversion\<close>











section \<open>Zero initial states of recurrent layers\<close>









end
